theory Spec2Isabelle
  imports Main
begin

section \<open>Python values: text, exceptions, results\<close>

text \<open>
  The three scripts \<^verbatim>\<open>ssh_run.py\<close>, \<^verbatim>\<open>scp_run.py\<close> and \<^verbatim>\<open>upload_images.py\<close> are
  embedded as state transformers. A Python \<^verbatim>\<open>str\<close> is a list of 8-bit characters, a
  \<^verbatim>\<open>bytes\<close> object is a list of bytes, a decoded text is a list of code points.
  Every \<^verbatim>\<open>raise\<close>, \<^verbatim>\<open>sys.exit\<close> and uncaught exception is a value.
\<close>

type_synonym bytes = "char list"

text \<open>
  The exception classes the scripts distinguish. \<^verbatim>\<open>AuthenticationException\<close> is a
  subclass of \<^verbatim>\<open>SSHException\<close>; \<^verbatim>\<open>IOError\<close> is Python 3's \<^verbatim>\<open>OSError\<close>;
  \<^verbatim>\<open>KeyboardInterrupt\<close> and \<^verbatim>\<open>SystemExit\<close> derive from \<^verbatim>\<open>BaseException\<close> only, so
  \<^verbatim>\<open>except Exception\<close> does not catch them. The string is \<^verbatim>\<open>str(e)\<close>.
\<close>

datatype exn =
    AuthenticationException string
  | SSHException string
  | IOError string
  | ValueError string
  | OtherException string
  | KeyboardInterrupt
  | SystemExit int

fun is_AuthenticationException :: "exn \<Rightarrow> bool" where
  "is_AuthenticationException (AuthenticationException _) = True"
| "is_AuthenticationException _ = False"

fun is_SSHException :: "exn \<Rightarrow> bool" where
  "is_SSHException (AuthenticationException _) = True"
| "is_SSHException (SSHException _) = True"
| "is_SSHException _ = False"

fun is_IOError :: "exn \<Rightarrow> bool" where
  "is_IOError (IOError _) = True"
| "is_IOError _ = False"

fun is_Exception :: "exn \<Rightarrow> bool" where
  "is_Exception KeyboardInterrupt = False"
| "is_Exception (SystemExit _) = False"
| "is_Exception _ = True"

fun str_exn :: "exn \<Rightarrow> string" where
  "str_exn (AuthenticationException m) = m"
| "str_exn (SSHException m) = m"
| "str_exn (IOError m) = m"
| "str_exn (ValueError m) = m"
| "str_exn (OtherException m) = m"
| "str_exn KeyboardInterrupt = []"
| "str_exn (SystemExit _) = []"

datatype 'a res = Return 'a | Raise exn

section \<open>The environment: console, local files, remote host\<close>

datatype stream = Stdout | Stderr

text \<open>
  A local \<^verbatim>\<open>Path\<close> object: \<^verbatim>\<open>Path(p)\<close>, or the child \<^verbatim>\<open>Path(p) / name\<close> that
  \<^verbatim>\<open>glob\<close> yields. \<^verbatim>\<open>str(f)\<close> is left symbolic.
\<close>

datatype lpath = LPath string | LChild string string

text \<open>What a run does to the outside, in order.\<close>

datatype event =
    Print stream string
  | NewClient
  | SetPolicy
  | Connect string int string string
  | OpenSftp
  | Mkdir string
  | Put lpath string
  | SftpClose
  | ExecCommand string
  | ReadStdout
  | ReadStderr
  | RecvExitStatus
  | SshClose

datatype session_state = Unconnected | Connected | Closed

text \<open>
  A node of the local file system: a regular file with its content, or a directory with
  its children in the order in which the directory enumerates them. (Devices, sockets and
  dangling links are not modelled.)
\<close>

datatype node = RegularFile bytes | Directory "(string \<times> node) list"

record state =
  session :: session_state
  rdirs :: "string set"
  rfiles :: "string \<Rightarrow> bytes option"
  trace :: "event list"

text \<open>
  Everything the scripts read from outside: the \<^verbatim>\<open>.env\<close> file (its lines, or \<^verbatim>\<open>None\<close>
  when it does not exist), the local file system, and for every call into paramiko the
  exception it raises, if any.
\<close>

record world =
  env_path :: string
  env_file :: "string list option"
  local_fs :: "string \<Rightarrow> node option"
  images_dir :: string
  connect_fault :: "string \<Rightarrow> int \<Rightarrow> string \<Rightarrow> string \<Rightarrow> exn option"
  exec_fault :: "string \<Rightarrow> exn option"
  cmd_stdout :: "string \<Rightarrow> exn + bytes"
  cmd_stderr :: "string \<Rightarrow> exn + bytes"
  cmd_exit_status :: "string \<Rightarrow> exn + int"
  open_sftp_fault :: "exn option"
  mkdir_fault :: "string \<Rightarrow> exn option"
  put_fault :: "string \<Rightarrow> exn option"
  sftp_close_fault :: "exn option"

section \<open>Control flow\<close>

type_synonym 'a prog = "state \<Rightarrow> 'a res \<times> state"

definition ret :: "'a \<Rightarrow> 'a prog" where
  "ret x = (\<lambda>s. (Return x, s))"

definition raise :: "exn \<Rightarrow> 'a prog" where
  "raise e = (\<lambda>s. (Raise e, s))"

definition bnd :: "'a prog \<Rightarrow> ('a \<Rightarrow> 'b prog) \<Rightarrow> 'b prog" where
  "bnd m f = (\<lambda>s. case m s of (Return x, s') \<Rightarrow> f x s' | (Raise e, s') \<Rightarrow> (Raise e, s'))"

text \<open>\<^verbatim>\<open>try: m  except ...: h\<close>, where \<open>h\<close> re-raises what no clause matches.\<close>

definition try_except :: "'a prog \<Rightarrow> (exn \<Rightarrow> 'a prog) \<Rightarrow> 'a prog" where
  "try_except m h = (\<lambda>s. case m s of (Return x, s') \<Rightarrow> (Return x, s') | (Raise e, s') \<Rightarrow> h e s')"

text \<open>
  \<^verbatim>\<open>try: m  finally: c\<close>: \<open>c\<close> runs on every way out of \<open>m\<close>, and an exception of
  \<open>c\<close> replaces the result of \<open>m\<close>.
\<close>

definition try_finally :: "'a prog \<Rightarrow> unit prog \<Rightarrow> 'a prog" where
  "try_finally m c = (\<lambda>s. case m s of (r, s') \<Rightarrow>
     (case c s' of (Return _, s'') \<Rightarrow> (r, s'') | (Raise e, s'') \<Rightarrow> (Raise e, s'')))"

definition emit :: "event \<Rightarrow> unit prog" where
  "emit e = (\<lambda>s. (Return (), s\<lparr>trace := trace s @ [e]\<rparr>))"

definition newline :: string where
  "newline = [CHR 0x0A]"

definition print_out :: "string \<Rightarrow> unit prog" where
  "print_out t = emit (Print Stdout (t @ newline))"

definition print_err :: "string \<Rightarrow> unit prog" where
  "print_err t = emit (Print Stderr (t @ newline))"

definition sys_exit :: "int \<Rightarrow> 'a prog" where
  "sys_exit c = raise (SystemExit c)"

section \<open>Builtins: \<^verbatim>\<open>str.strip\<close>, \<^verbatim>\<open>int\<close>, \<^verbatim>\<open>str\<close>, the codecs\<close>

definition py_isspace :: "char \<Rightarrow> bool" where
  "py_isspace c = (c \<in> set [CHR 0x09, CHR 0x0A, CHR 0x0B, CHR 0x0C, CHR 0x0D,
     CHR 0x1C, CHR 0x1D, CHR 0x1E, CHR 0x1F, CHR 0x20, CHR 0x85, CHR 0xA0])"

definition py_strip :: "string \<Rightarrow> string" where
  "py_strip t = rev (dropWhile py_isspace (rev (dropWhile py_isspace t)))"

definition is_digit :: "char \<Rightarrow> bool" where
  "is_digit c = ((48::nat) \<le> of_char c \<and> (of_char c :: nat) \<le> 57)"

definition digit_val :: "char \<Rightarrow> nat" where
  "digit_val c = of_char c - 48"

text \<open>
  The digits of a base-10 literal after the sign: groups of digits separated by single
  underscores. \<open>py_digits_rest acc cs\<close> has read at least one digit.
\<close>

fun py_digits_rest :: "nat \<Rightarrow> string \<Rightarrow> nat option" where
  "py_digits_rest acc [] = Some acc"
| "py_digits_rest acc [c] = (if is_digit c then Some (acc * 10 + digit_val c) else None)"
| "py_digits_rest acc (c # d # cs) =
     (if is_digit c then py_digits_rest (acc * 10 + digit_val c) (d # cs)
      else if c = CHR ''_'' \<and> is_digit d then py_digits_rest (acc * 10 + digit_val d) cs
      else None)"

definition py_digits :: "string \<Rightarrow> nat option" where
  "py_digits cs = (case cs of [] \<Rightarrow> None
     | c # cs' \<Rightarrow> if is_digit c then py_digits_rest (digit_val c) cs' else None)"

text \<open>
  \<^verbatim>\<open>int(s)\<close> for a string: surrounding whitespace is dropped, a sign may lead, the rest is
  a base-10 literal. \<^verbatim>\<open>None\<close> is \<^verbatim>\<open>ValueError\<close>. (The interpreter's configurable limit
  on the number of digits is not modelled.)
\<close>

definition py_int :: "string \<Rightarrow> int option" where
  "py_int t = (case py_strip t of [] \<Rightarrow> None
     | c # cs \<Rightarrow>
         if c = CHR ''-'' then map_option (\<lambda>n. - int n) (py_digits cs)
         else if c = CHR ''+'' then map_option int (py_digits cs)
         else map_option int (py_digits (c # cs)))"

text \<open>\<^verbatim>\<open>str(n)\<close> for a non-negative integer.\<close>

definition digit_char :: "nat \<Rightarrow> char" where
  "digit_char d = char_of (48 + d)"

function str_nat :: "nat \<Rightarrow> string" where
  "str_nat n = (if n < 10 then [digit_char n] else str_nat (n div 10) @ [digit_char (n mod 10)])"
  by pat_completeness auto
termination
  by (relation "measure id") auto

subsection \<open>UTF-8 decoding\<close>

definition continuation :: "nat \<Rightarrow> bool" where
  "continuation b = (128 \<le> b \<and> b \<le> 191)"

text \<open>The range of the second byte, which depends on the lead byte.\<close>

definition second_ok :: "nat \<Rightarrow> nat \<Rightarrow> bool" where
  "second_ok lead b =
     (if lead = 224 then 160 \<le> b \<and> b \<le> 191
      else if lead = 237 then 128 \<le> b \<and> b \<le> 159
      else if lead = 240 then 144 \<le> b \<and> b \<le> 191
      else if lead = 244 then 128 \<le> b \<and> b \<le> 143
      else continuation b)"

text \<open>
  One step of the decoder at the head of a non-empty input: the code point and the number
  of bytes it takes, or \<^verbatim>\<open>None\<close> and the number of bytes the error covers (the longest
  prefix of a well-formed sequence, at least one byte).
\<close>

fun utf8_unit :: "nat list \<Rightarrow> nat option \<times> nat" where
  "utf8_unit [] = (None, 0)"
| "utf8_unit (b # bs) =
     (if b < 128 then (Some b, 1)
      else if 194 \<le> b \<and> b \<le> 223 then
        (case bs of
           [] \<Rightarrow> (None, 1)
         | c # _ \<Rightarrow> if continuation c then (Some ((b - 192) * 64 + (c - 128)), 2) else (None, 1))
      else if 224 \<le> b \<and> b \<le> 239 then
        (case bs of
           [] \<Rightarrow> (None, 1)
         | [c] \<Rightarrow> if second_ok b c then (None, 2) else (None, 1)
         | c # d # _ \<Rightarrow>
             if \<not> second_ok b c then (None, 1)
             else if continuation d
               then (Some ((b - 224) * 4096 + (c - 128) * 64 + (d - 128)), 3)
             else (None, 2))
      else if 240 \<le> b \<and> b \<le> 244 then
        (case bs of
           [] \<Rightarrow> (None, 1)
         | [c] \<Rightarrow> if second_ok b c then (None, 2) else (None, 1)
         | [c, d] \<Rightarrow>
             if \<not> second_ok b c then (None, 1)
             else if continuation d then (None, 3) else (None, 2)
         | c # d # e # _ \<Rightarrow>
             if \<not> second_ok b c then (None, 1)
             else if \<not> continuation d then (None, 2)
             else if continuation e
               then (Some ((b - 240) * 262144 + (c - 128) * 4096 + (d - 128) * 64 + (e - 128)), 4)
             else (None, 3))
      else (None, 1))"

text \<open>\<^verbatim>\<open>errors='replace'\<close>: an error becomes U+FFFD and decoding resumes after it.\<close>

function decode_replace :: "nat list \<Rightarrow> nat list" where
  "decode_replace bs =
     (if bs = [] then []
      else (case fst (utf8_unit bs) of Some cp \<Rightarrow> cp | None \<Rightarrow> 65533)
           # decode_replace (drop (snd (utf8_unit bs)) bs))"
  by pat_completeness auto
termination
proof (relation "measure length")
  fix bs :: "nat list"
  assume "bs \<noteq> []"
  then have "0 < snd (utf8_unit bs)"
    by (cases bs) (auto split: list.splits)
  with \<open>bs \<noteq> []\<close> show "(drop (snd (utf8_unit bs)) bs, bs) \<in> measure length"
    by simp
qed simp

text \<open>\<^verbatim>\<open>errors='strict'\<close>: an error raises \<^verbatim>\<open>UnicodeDecodeError\<close>, here \<^verbatim>\<open>None\<close>.\<close>

function decode_strict :: "nat list \<Rightarrow> nat list option" where
  "decode_strict bs =
     (if bs = [] then Some []
      else (case fst (utf8_unit bs) of
              None \<Rightarrow> None
            | Some cp \<Rightarrow> map_option (\<lambda>cps. cp # cps) (decode_strict (drop (snd (utf8_unit bs)) bs))))"
  by pat_completeness auto
termination
proof (relation "measure length")
  fix bs :: "nat list"
  assume "bs \<noteq> []"
  then have "0 < snd (utf8_unit bs)"
    by (cases bs) (auto split: list.splits)
  with \<open>bs \<noteq> []\<close> show "(drop (snd (utf8_unit bs)) bs, bs) \<in> measure length"
    by simp
qed simp

text \<open>\<^verbatim>\<open>b.decode('utf-8', errors='replace')\<close>\<close>

definition decode_utf8 :: "bytes \<Rightarrow> nat list" where
  "decode_utf8 b = decode_replace (map of_char b)"

text \<open>\<^verbatim>\<open>t.encode('ascii', errors='replace').decode('ascii')\<close>\<close>

definition ascii_replace :: "nat list \<Rightarrow> string" where
  "ascii_replace t = map (\<lambda>cp. if cp < 128 then char_of cp else CHR ''?'') t"


section \<open>The \<^verbatim>\<open>.env\<close> file\<close>

definition startswith :: "string \<Rightarrow> string \<Rightarrow> bool" where
  "startswith t p = (take (length p) t = p)"

definition endswith :: "string \<Rightarrow> string \<Rightarrow> bool" where
  "endswith t p = (length p \<le> length t \<and> drop (length t - length p) t = p)"

text \<open>One turn of the loop over the lines of the file.\<close>

definition parse_line :: "(string \<Rightarrow> string option) \<Rightarrow> string \<Rightarrow> (string \<Rightarrow> string option)" where
  "parse_line config raw =
     (let line = py_strip raw in
      if line \<noteq> [] \<and> \<not> startswith line ''#'' \<and> CHR ''='' \<in> set line
      then (let key = takeWhile (\<lambda>c. c \<noteq> CHR ''='') line;
                v = tl (dropWhile (\<lambda>c. c \<noteq> CHR ''='') line)
            in config(py_strip key \<mapsto> py_strip v))
      else config)"

text \<open>The dictionary after the loop over all lines.\<close>

definition parse_env :: "string list \<Rightarrow> (string \<Rightarrow> string option)" where
  "parse_env ls = foldl parse_line Map.empty ls"

definition load_env :: "world \<Rightarrow> (string \<Rightarrow> string option) prog" where
  "load_env w =
     (case env_file w of
        None \<Rightarrow> bnd (print_err (''Error: .env file not found at '' @ env_path w)) (\<lambda>_. sys_exit 1)
      | Some ls \<Rightarrow> ret (parse_env ls))"

text \<open>
  \<^verbatim>\<open>int(config.get('SSH_PORT', 22))\<close>. The \<^verbatim>\<open>ValueError\<close> carries the string that
  \<^verbatim>\<open>int\<close> rejected.
\<close>

definition get_port :: "(string \<Rightarrow> string option) \<Rightarrow> int prog" where
  "get_port config =
     (case config ''SSH_PORT'' of
        None \<Rightarrow> ret 22
      | Some t \<Rightarrow> (case py_int t of None \<Rightarrow> raise (ValueError t) | Some p \<Rightarrow> ret p))"

text \<open>Truth of a value of \<^verbatim>\<open>config.get\<close>: \<^verbatim>\<open>None\<close> and the empty string are false.\<close>

definition truthy :: "string option \<Rightarrow> bool" where
  "truthy v = (case v of None \<Rightarrow> False | Some t \<Rightarrow> t \<noteq> [])"

definition py_all :: "string option list \<Rightarrow> bool" where
  "py_all vs = list_all truthy vs"

definition missing_config :: "'a prog" where
  "missing_config =
     bnd (print_err ''Error: Missing SSH configuration in .env file'') (\<lambda>_. sys_exit 1)"

section \<open>The calls into paramiko\<close>

text \<open>
  Modelled from the spec: paramiko's client and the remote host are not part of the
  repository. A new client is unconnected; \<^verbatim>\<open>connect\<close> makes it connected unless it
  raises; \<^verbatim>\<open>close\<close> releases it and never raises, whatever its state; \<^verbatim>\<open>mkdir\<close> of a
  directory that exists raises \<^verbatim>\<open>IOError\<close>; \<^verbatim>\<open>put\<close> writes the file's bytes to the
  remote path, replacing what is there, and opening a local directory raises
  \<^verbatim>\<open>IsADirectoryError\<close>, an \<^verbatim>\<open>IOError\<close>. Any call may also raise what the world says.
\<close>

definition new_client :: "unit prog" where
  "new_client = (\<lambda>s. (Return (), s\<lparr>session := Unconnected, trace := trace s @ [NewClient, SetPolicy]\<rparr>))"

definition ssh_connect :: "world \<Rightarrow> string \<Rightarrow> int \<Rightarrow> string \<Rightarrow> string \<Rightarrow> unit prog" where
  "ssh_connect w host port user password =
     bnd (emit (Connect host port user password)) (\<lambda>_.
       case connect_fault w host port user password of
         Some e \<Rightarrow> raise e
       | None \<Rightarrow> (\<lambda>s. (Return (), s\<lparr>session := Connected\<rparr>)))"

definition ssh_close :: "unit prog" where
  "ssh_close = (\<lambda>s. (Return (), s\<lparr>session := Closed, trace := trace s @ [SshClose]\<rparr>))"

definition exec_command :: "world \<Rightarrow> string \<Rightarrow> unit prog" where
  "exec_command w command =
     bnd (emit (ExecCommand command)) (\<lambda>_.
       case exec_fault w command of Some e \<Rightarrow> raise e | None \<Rightarrow> ret ())"

definition read_stdout :: "world \<Rightarrow> string \<Rightarrow> bytes prog" where
  "read_stdout w command =
     bnd (emit ReadStdout) (\<lambda>_.
       case cmd_stdout w command of Inl e \<Rightarrow> raise e | Inr b \<Rightarrow> ret b)"

definition read_stderr :: "world \<Rightarrow> string \<Rightarrow> bytes prog" where
  "read_stderr w command =
     bnd (emit ReadStderr) (\<lambda>_.
       case cmd_stderr w command of Inl e \<Rightarrow> raise e | Inr b \<Rightarrow> ret b)"

definition recv_exit_status :: "world \<Rightarrow> string \<Rightarrow> int prog" where
  "recv_exit_status w command =
     bnd (emit RecvExitStatus) (\<lambda>_.
       case cmd_exit_status w command of Inl e \<Rightarrow> raise e | Inr c \<Rightarrow> ret c)"

definition open_sftp :: "world \<Rightarrow> unit prog" where
  "open_sftp w =
     bnd (emit OpenSftp) (\<lambda>_. case open_sftp_fault w of Some e \<Rightarrow> raise e | None \<Rightarrow> ret ())"

definition sftp_mkdir :: "world \<Rightarrow> string \<Rightarrow> unit prog" where
  "sftp_mkdir w p =
     bnd (emit (Mkdir p)) (\<lambda>_.
       case mkdir_fault w p of
         Some e \<Rightarrow> raise e
       | None \<Rightarrow> (\<lambda>s. if p \<in> rdirs s then (Raise (IOError ''Failure''), s)
                      else (Return (), s\<lparr>rdirs := insert p (rdirs s)\<rparr>)))"

definition sftp_put :: "world \<Rightarrow> lpath \<Rightarrow> node \<Rightarrow> string \<Rightarrow> unit prog" where
  "sftp_put w lp nd rp =
     bnd (emit (Put lp rp)) (\<lambda>_.
       case nd of
         Directory _ \<Rightarrow> raise (IOError ''[Errno 21] Is a directory'')
       | RegularFile content \<Rightarrow>
           (case put_fault w rp of
              Some e \<Rightarrow> raise e
            | None \<Rightarrow> (\<lambda>s. (Return (), s\<lparr>rfiles := (rfiles s)(rp \<mapsto> content)\<rparr>))))"

definition sftp_close :: "world \<Rightarrow> unit prog" where
  "sftp_close w =
     bnd (emit SftpClose) (\<lambda>_. case sftp_close_fault w of Some e \<Rightarrow> raise e | None \<Rightarrow> ret ())"

section \<open>Local paths\<close>

fun is_file :: "node \<Rightarrow> bool" where
  "is_file (RegularFile _) = True"
| "is_file (Directory _) = False"

text \<open>The direct children that \<^verbatim>\<open>Path.glob\<close> matches a one-level pattern against.\<close>

fun children :: "node \<Rightarrow> (string \<times> node) list" where
  "children (Directory cs) = cs"
| "children (RegularFile _) = []"

text \<open>\<^verbatim>\<open>local.glob('*' + suffix)\<close>\<close>

definition glob_suffix :: "node \<Rightarrow> string \<Rightarrow> (string \<times> node) list" where
  "glob_suffix d suffix = filter (\<lambda>f. endswith (fst f) suffix) (children d)"

fun split_on :: "char \<Rightarrow> string \<Rightarrow> string list" where
  "split_on sep [] = [[]]"
| "split_on sep (c # cs) =
     (if c = sep then [] # split_on sep cs
      else (case split_on sep cs of [] \<Rightarrow> [[c]] | x # xs \<Rightarrow> (c # x) # xs))"

text \<open>\<^verbatim>\<open>Path(p).name\<close>: the last component, empty and \<^verbatim>\<open>.\<close> components dropped.\<close>

definition path_name :: "string \<Rightarrow> string" where
  "path_name p =
     (let parts = filter (\<lambda>c. c \<noteq> [] \<and> c \<noteq> ''.'') (split_on CHR ''/'' p)
      in if parts = [] then [] else last parts)"

section \<open>The upload loop\<close>

text \<open>
  \<^verbatim>\<open>for i, f in enumerate(files)\<close> of \<^verbatim>\<open>scp_copy\<close> and of \<^verbatim>\<open>upload_images\<close>, the
  same loop in both: \<open>i\<close> is the index of the head of the list, \<open>n\<close> is
  \<^verbatim>\<open>len(files)\<close>.
\<close>

definition progress_line :: "nat \<Rightarrow> nat \<Rightarrow> string" where
  "progress_line k n = ''Uploaded '' @ str_nat k @ ''/'' @ str_nat n"

fun upload_loop :: "world \<Rightarrow> string \<Rightarrow> string \<Rightarrow> nat \<Rightarrow> nat \<Rightarrow> (string \<times> node) list \<Rightarrow> unit prog" where
  "upload_loop w ldir rdir n i [] = ret ()"
| "upload_loop w ldir rdir n i (f # fs) =
     bnd (sftp_put w (LChild ldir (fst f)) (snd f) (rdir @ ''/'' @ fst f)) (\<lambda>_.
     bnd (if (i + 1) mod 10 = 0 \<or> i + 1 = n
          then print_out (progress_line (i + 1) n) else ret ()) (\<lambda>_.
     upload_loop w ldir rdir n (i + 1) fs))"

text \<open>\<^verbatim>\<open>try: sftp.mkdir(p)  except IOError: pass\<close>\<close>

definition ensure_remote_dir :: "world \<Rightarrow> string \<Rightarrow> unit prog" where
  "ensure_remote_dir w p =
     try_except (sftp_mkdir w p) (\<lambda>e. if is_IOError e then ret () else raise e)"

section \<open>\<^verbatim>\<open>ssh_run.py\<close>\<close>

definition ssh_run_body :: "world \<Rightarrow> string \<Rightarrow> int \<Rightarrow> string \<Rightarrow> string \<Rightarrow> string \<Rightarrow> int prog" where
  "ssh_run_body w host port user password command =
     bnd (ssh_connect w host port user password) (\<lambda>_.
     bnd (exec_command w command) (\<lambda>_.
     bnd (read_stdout w command) (\<lambda>out.
     let output = decode_utf8 out in
     bnd (read_stderr w command) (\<lambda>err.
     let errors = decode_utf8 err in
     bnd (recv_exit_status w command) (\<lambda>exit_code.
     bnd (if output \<noteq> [] then emit (Print Stdout (ascii_replace output)) else ret ()) (\<lambda>_.
     bnd (if errors \<noteq> [] then emit (Print Stderr (ascii_replace errors)) else ret ()) (\<lambda>_.
     ret exit_code)))))))"

text \<open>The \<^verbatim>\<open>except\<close> clauses of \<^verbatim>\<open>ssh_run\<close> and of \<^verbatim>\<open>upload_images\<close>, in their order.\<close>

definition exit_handler :: "exn \<Rightarrow> 'a prog" where
  "exit_handler e =
     (if is_AuthenticationException e then
        bnd (print_err ''Error: Authentication failed'') (\<lambda>_. sys_exit 1)
      else if is_SSHException e then
        bnd (print_err (''Error: SSH connection failed - '' @ str_exn e)) (\<lambda>_. sys_exit 1)
      else if is_Exception e then
        bnd (print_err (''Error: '' @ str_exn e)) (\<lambda>_. sys_exit 1)
      else raise e)"

definition ssh_run :: "world \<Rightarrow> string \<Rightarrow> int prog" where
  "ssh_run w command =
     bnd (load_env w) (\<lambda>config.
     let host = config ''SSH_HOST''; user = config ''SSH_USER'';
         password = config ''SSH_PASSWORD'' in
     bnd (get_port config) (\<lambda>port.
     if \<not> py_all [host, user, password] then missing_config
     else
       bnd new_client (\<lambda>_.
       try_finally
         (try_except (ssh_run_body w (the host) port (the user) (the password) command)
            exit_handler)
         ssh_close)))"

fun py_join :: "string \<Rightarrow> string list \<Rightarrow> string" where
  "py_join sep [] = []"
| "py_join sep [x] = x"
| "py_join sep (x # y # ys) = x @ sep @ py_join sep (y # ys)"

text \<open>The script run as a program, with \<^verbatim>\<open>sys.argv\<close>.\<close>

definition ssh_main :: "world \<Rightarrow> string list \<Rightarrow> unit prog" where
  "ssh_main w argv =
     (if length argv < 2 then
        bnd (print_err ''Usage: python ssh_run.py <command>'') (\<lambda>_. sys_exit 1)
      else
        bnd (ssh_run w (py_join '' '' (tl argv))) (\<lambda>exit_code. sys_exit exit_code))"

section \<open>\<^verbatim>\<open>scp_run.py\<close>\<close>

definition scp_copy_body ::
  "world \<Rightarrow> string \<Rightarrow> int \<Rightarrow> string \<Rightarrow> string \<Rightarrow> string \<Rightarrow> node \<Rightarrow> string \<Rightarrow> int prog" where
  "scp_copy_body w host port user password local_path local remote_path =
     bnd (ssh_connect w host port user password) (\<lambda>_.
     bnd (open_sftp w) (\<lambda>_.
     if is_file local then
       bnd (print_out (''Uploading '' @ path_name local_path @ ''...'')) (\<lambda>_.
       bnd (sftp_put w (LPath local_path) local remote_path) (\<lambda>_.
       bnd (print_out (''Done! Uploaded '' @ path_name local_path)) (\<lambda>_.
       bnd (sftp_close w) (\<lambda>_. ret 0))))
     else
       let files = filter (\<lambda>f. is_file (snd f)) (glob_suffix local []) in
       if files = [] then
         bnd (print_out ''No files found to upload.'') (\<lambda>_. ret 0)
       else
         bnd (ensure_remote_dir w remote_path) (\<lambda>_.
         bnd (print_out (''Uploading '' @ str_nat (length files) @ '' files...'')) (\<lambda>_.
         bnd (upload_loop w local_path remote_path (length files) 0 files) (\<lambda>_.
         bnd (print_out (''Done! Uploaded '' @ str_nat (length files) @ '' files.'')) (\<lambda>_.
         bnd (sftp_close w) (\<lambda>_. ret 0)))))))"

text \<open>The \<^verbatim>\<open>except\<close> clauses of \<^verbatim>\<open>scp_copy\<close>: each prints and returns 1.\<close>

definition return_handler :: "exn \<Rightarrow> int prog" where
  "return_handler e =
     (if is_AuthenticationException e then
        bnd (print_err ''Error: Authentication failed'') (\<lambda>_. ret 1)
      else if is_SSHException e then
        bnd (print_err (''Error: SSH connection failed - '' @ str_exn e)) (\<lambda>_. ret 1)
      else if is_Exception e then
        bnd (print_err (''Error: '' @ str_exn e)) (\<lambda>_. ret 1)
      else raise e)"

definition scp_copy :: "world \<Rightarrow> string \<Rightarrow> string \<Rightarrow> int prog" where
  "scp_copy w local_path remote_path =
     bnd (load_env w) (\<lambda>config.
     let host = config ''SSH_HOST''; user = config ''SSH_USER'';
         password = config ''SSH_PASSWORD'' in
     bnd (get_port config) (\<lambda>port.
     if \<not> py_all [host, user, password] then missing_config
     else
       case local_fs w local_path of
         None \<Rightarrow>
           bnd (print_err (''Error: Local path not found: '' @ local_path)) (\<lambda>_. sys_exit 1)
       | Some local \<Rightarrow>
           bnd (print_out (''Connecting to '' @ the host @ ''...'')) (\<lambda>_.
           bnd new_client (\<lambda>_.
           try_finally
             (try_except
                (scp_copy_body w (the host) port (the user) (the password)
                   local_path local remote_path)
                return_handler)
             ssh_close))))"

definition scp_usage :: "unit prog" where
  "scp_usage =
     bnd (print_err ''Usage: python scp_run.py <local_path> <remote_path>'') (\<lambda>_.
     bnd (print_err (newline @ ''Examples:'')) (\<lambda>_.
     bnd (print_err (''  python scp_run.py ../server/uploads/products ''
            @ ''/root/PerfumesStore/server/uploads/products'')) (\<lambda>_.
     print_err ''  python scp_run.py ./file.txt /root/file.txt'')))"

definition scp_main :: "world \<Rightarrow> string list \<Rightarrow> unit prog" where
  "scp_main w argv =
     (if length argv < 3 then bnd scp_usage (\<lambda>_. sys_exit 1)
      else bnd (scp_copy w (argv ! 1) (argv ! 2)) (\<lambda>exit_code. sys_exit exit_code))"

section \<open>\<^verbatim>\<open>upload_images.py\<close>\<close>

definition remote_dir :: string where
  "remote_dir = ''/root/PerfumesStore/server/uploads/products''"

definition upload_images_body ::
  "world \<Rightarrow> string \<Rightarrow> int \<Rightarrow> string \<Rightarrow> string \<Rightarrow> node \<Rightarrow> unit prog" where
  "upload_images_body w host port user password local_dir =
     bnd (ssh_connect w host port user password) (\<lambda>_.
     bnd (open_sftp w) (\<lambda>_.
     bnd (ensure_remote_dir w remote_dir) (\<lambda>_.
     let files = glob_suffix local_dir ''.png'' @ glob_suffix local_dir ''.jpg''
                 @ glob_suffix local_dir ''.webp'' in
     if files = [] then print_out ''No image files found to upload.''
     else
       bnd (print_out (''Uploading '' @ str_nat (length files) @ '' images...'')) (\<lambda>_.
       bnd (upload_loop w (images_dir w) remote_dir (length files) 0 files) (\<lambda>_.
       bnd (print_out (''Done! Uploaded '' @ str_nat (length files) @ '' images.'')) (\<lambda>_.
       sftp_close w))))))"

definition upload_images :: "world \<Rightarrow> unit prog" where
  "upload_images w =
     bnd (load_env w) (\<lambda>config.
     let host = config ''SSH_HOST''; user = config ''SSH_USER'';
         password = config ''SSH_PASSWORD'' in
     bnd (get_port config) (\<lambda>port.
     if \<not> py_all [host, user, password] then missing_config
     else
       case local_fs w (images_dir w) of
         None \<Rightarrow>
           bnd (print_err (''Error: Local directory not found: '' @ images_dir w))
             (\<lambda>_. sys_exit 1)
       | Some local_dir \<Rightarrow>
           bnd (print_out (''Connecting to '' @ the host @ ''...'')) (\<lambda>_.
           bnd new_client (\<lambda>_.
           try_finally
             (try_except
                (upload_images_body w (the host) port (the user) (the password) local_dir)
                exit_handler)
             ssh_close))))"

section \<open>Notions used in the statements\<close>

text \<open>
  A complete configuration: the \<^verbatim>\<open>.env\<close> file exists, gives non-empty host, user and
  password, and \<^verbatim>\<open>int(config.get('SSH_PORT', 22))\<close> evaluates to \<open>port\<close>.
\<close>

definition configured :: "world \<Rightarrow> string \<Rightarrow> int \<Rightarrow> string \<Rightarrow> string \<Rightarrow> bool" where
  "configured w host port user password =
     (\<exists>ls. env_file w = Some ls
        \<and> parse_env ls ''SSH_HOST'' = Some host \<and> host \<noteq> []
        \<and> parse_env ls ''SSH_USER'' = Some user \<and> user \<noteq> []
        \<and> parse_env ls ''SSH_PASSWORD'' = Some password \<and> password \<noteq> []
        \<and> get_port (parse_env ls) = ret port)"

text \<open>
  What the \<open>k\<close>-th file of a batch of \<open>n\<close> contributes when its upload succeeds
  (\<open>k\<close> counts from 1): the upload, then a progress line iff \<open>k\<close> is a multiple of 10
  or \<open>k = n\<close>.
\<close>

definition step_events :: "string \<Rightarrow> string \<Rightarrow> nat \<Rightarrow> nat \<Rightarrow> (string \<times> node) \<Rightarrow> event list" where
  "step_events ldir rdir n k f =
     Put (LChild ldir (fst f)) (rdir @ ''/'' @ fst f)
     # (if k mod 10 = 0 \<or> k = n then [Print Stdout (progress_line k n @ newline)] else [])"

text \<open>The events of the first files \<open>fs\<close> of a batch of \<open>n\<close> files, all uploaded.\<close>

definition batch_events :: "string \<Rightarrow> string \<Rightarrow> nat \<Rightarrow> (string \<times> node) list \<Rightarrow> event list" where
  "batch_events ldir rdir n fs =
     concat (map (\<lambda>k. step_events ldir rdir n (Suc k) (fs ! k)) [0..<length fs])"

fun loop_events :: "string \<Rightarrow> string \<Rightarrow> nat \<Rightarrow> nat \<Rightarrow> (string \<times> node) list \<Rightarrow> event list" where
  "loop_events ldir rdir n i [] = []"
| "loop_events ldir rdir n i (f # fs) =
     step_events ldir rdir n (Suc i) f @ loop_events ldir rdir n (Suc i) fs"

text \<open>The upload of \<open>f\<close> into \<open>rdir\<close> succeeds.\<close>

definition put_ok :: "world \<Rightarrow> string \<Rightarrow> (string \<times> node) \<Rightarrow> bool" where
  "put_ok w rdir f = (is_file (snd f) \<and> put_fault w (rdir @ ''/'' @ fst f) = None)"

fun content :: "node \<Rightarrow> bytes" where
  "content (RegularFile c) = c"
| "content (Directory _) = []"

text \<open>The remote files after the files \<open>fs\<close> have been written into \<open>rdir\<close>.\<close>

definition store :: "string \<Rightarrow> (string \<times> node) list \<Rightarrow> (string \<Rightarrow> bytes option) \<Rightarrow> (string \<Rightarrow> bytes option)" where
  "store rdir fs m = foldl (\<lambda>m f. m(rdir @ ''/'' @ fst f \<mapsto> content (snd f))) m fs"

text \<open>\<^verbatim>\<open>mkdir\<close> succeeds or raises an \<^verbatim>\<open>IOError\<close>.\<close>

definition mkdir_ok :: "world \<Rightarrow> string \<Rightarrow> bool" where
  "mkdir_ok w p = (case mkdir_fault w p of None \<Rightarrow> True | Some e \<Rightarrow> is_IOError e)"

text \<open>The line the \<^verbatim>\<open>except\<close> clauses print for an exception.\<close>

definition error_line :: "exn \<Rightarrow> string" where
  "error_line e =
     (if is_AuthenticationException e then ''Error: Authentication failed''
      else if is_SSHException e then ''Error: SSH connection failed - '' @ str_exn e
      else ''Error: '' @ str_exn e)"

text \<open>The uploads in a trace, in order: local file and remote path.\<close>

fun put_of :: "event \<Rightarrow> (lpath \<times> string) list" where
  "put_of (Put l r) = [(l, r)]"
| "put_of _ = []"

definition puts :: "event list \<Rightarrow> (lpath \<times> string) list" where
  "puts evs = concat (map put_of evs)"

text \<open>The upload the loop makes for a file.\<close>

definition target :: "string \<Rightarrow> string \<Rightarrow> (string \<times> node) \<Rightarrow> lpath \<times> string" where
  "target ldir rdir f = (LChild ldir (fst f), rdir @ ''/'' @ fst f)"

text \<open>Every event a program adds to the trace satisfies \<open>P\<close>.\<close>

definition emits :: "(event \<Rightarrow> bool) \<Rightarrow> 'a prog \<Rightarrow> bool" where
  "emits P m = (\<forall>s. \<exists>evs. trace (snd (m s)) = trace s @ evs \<and> list_all P evs)"

text \<open>The uploads a program adds to the trace are the first \<open>k\<close> of \<open>xs\<close>, for some \<open>k\<close>.\<close>

definition puts_upto :: "(lpath \<times> string) list \<Rightarrow> 'a prog \<Rightarrow> bool" where
  "puts_upto xs m = (\<forall>s. \<exists>k. puts (trace (snd (m s))) = puts (trace s) @ take k xs)"

text \<open>An event that neither creates nor closes a session.\<close>

definition session_neutral :: "event \<Rightarrow> bool" where
  "session_neutral e = (e \<noteq> NewClient \<and> e \<noteq> SshClose)"

text \<open>
  From state \<open>s\<close> to state \<open>s'\<close>, either no session was created and none closed, or
  one was created and then closed once, as the last event, and is closed in \<open>s'\<close>.
\<close>

definition closes_once :: "state \<Rightarrow> state \<Rightarrow> bool" where
  "closes_once s s' =
     ((\<exists>pre. trace s' = trace s @ pre \<and> list_all session_neutral pre)
      \<or> (\<exists>pre mid. trace s' = trace s @ pre @ [NewClient, SetPolicy] @ mid @ [SshClose]
            \<and> list_all session_neutral pre \<and> list_all session_neutral mid
            \<and> session s' = Closed))"

text \<open>A program that keeps \<open>closes_once\<close> from every state.\<close>

definition session_safe :: "'a prog \<Rightarrow> bool" where
  "session_safe m = (\<forall>s. closes_once s (snd (m s)))"

section \<open>Example worlds\<close>

text \<open>Concrete environments on which the theorems below are instantiated.\<close>

definition env_ok :: "string list" where
  "env_ok = [''# deployment server'', ''SSH_HOST=h'', ''SSH_USER = u'', ''SSH_PASSWORD=p'',
     ''SSH_PORT=22'']"

definition env_no_host :: "string list" where
  "env_no_host = [''SSH_USER=u'', ''SSH_PASSWORD=p'']"

definition env_bad_port :: "string list" where
  "env_bad_port = [''SSH_USER=u'', ''SSH_PASSWORD=p'', ''SSH_PORT=abc'']"

definition world_ok :: world where
  "world_ok = \<lparr>env_path = ''/opt/remote/.env'', env_file = Some env_ok,
     local_fs = (\<lambda>p. None), images_dir = ''/opt/server/uploads/products'',
     connect_fault = (\<lambda>host port user password. None),
     exec_fault = (\<lambda>c. None),
     cmd_stdout = (\<lambda>c. Inr [CHR ''h'', CHR ''i'', CHR 0xFF, CHR 0x0A]),
     cmd_stderr = (\<lambda>c. Inr []),
     cmd_exit_status = (\<lambda>c. Inr 17),
     open_sftp_fault = None, mkdir_fault = (\<lambda>p. None), put_fault = (\<lambda>p. None),
     sftp_close_fault = None\<rparr>"

definition world_auth :: world where
  "world_auth = world_ok\<lparr>connect_fault :=
     (\<lambda>host port user password. Some (AuthenticationException ''Authentication failed.''))\<rparr>"

definition world_no_host :: world where
  "world_no_host = world_ok\<lparr>env_file := Some env_no_host\<rparr>"

definition world_bad_port :: world where
  "world_bad_port = world_ok\<lparr>env_file := Some env_bad_port\<rparr>"

definition state0 :: state where
  "state0 = \<lparr>session = Unconnected, rdirs = {}, rfiles = (\<lambda>p. None), trace = []\<rparr>"

definition batch12 :: "(string \<times> node) list" where
  "batch12 = [(''01.png'', RegularFile ''a''), (''02.png'', RegularFile ''b''),
     (''03.png'', RegularFile ''c''), (''04.jpg'', RegularFile ''d''),
     (''05.png'', RegularFile ''e''), (''06.png'', RegularFile ''f''),
     (''07.png'', RegularFile ''g''), (''08.png'', RegularFile ''h''),
     (''09.png'', RegularFile ''i''), (''10.png'', RegularFile ''j''),
     (''11.png'', RegularFile ''k''), (''12.png'', RegularFile ''l'')]"

definition world_batch :: world where
  "world_batch = world_ok\<lparr>local_fs :=
     (\<lambda>p. if p = ''dist'' \<or> p = ''/opt/server/uploads/products''
          then Some (Directory (batch12 @ [(''old'', Directory [(''13.png'', RegularFile ''m'')])]))
          else None)\<rparr>"

definition world_put_fails :: world where
  "world_put_fails = world_batch\<lparr>put_fault :=
     (\<lambda>p. if p = ''/srv/dist/03.png'' then Some (SSHException ''Server connection dropped'')
          else None)\<rparr>"

definition images12 :: "(string \<times> node) list" where
  "images12 = [(''01.png'', RegularFile ''a''), (''02.png'', RegularFile ''b''),
     (''03.png'', RegularFile ''c''),
     (''05.png'', RegularFile ''e''), (''06.png'', RegularFile ''f''),
     (''07.png'', RegularFile ''g''), (''08.png'', RegularFile ''h''),
     (''09.png'', RegularFile ''i''), (''10.png'', RegularFile ''j''),
     (''11.png'', RegularFile ''k''), (''12.png'', RegularFile ''l''),
     (''04.jpg'', RegularFile ''d'')]"

definition state_existing :: state where
  "state_existing = state0\<lparr>rdirs := {''/srv/dist'', remote_dir}\<rparr>"

definition world_image_dir :: world where
  "world_image_dir = world_ok\<lparr>local_fs :=
     (\<lambda>p. if p = ''/opt/server/uploads/products''
          then Some (Directory [(''thumbs.png'', Directory [(''01.png'', RegularFile ''a'')])])
          else None)\<rparr>"

definition world_no_files :: world where
  "world_no_files = world_ok\<lparr>local_fs :=
     (\<lambda>p. if p = ''dist'' \<or> p = ''/opt/server/uploads/products''
          then Some (Directory [(''old'', Directory [(''13.png'', RegularFile ''m'')])])
          else None)\<rparr>"

section \<open>Rules for the control flow\<close>

lemma ret_apply [simp]: "ret x s = (Return x, s)"
  by (simp add: ret_def)

lemma raise_apply [simp]: "raise e s = (Raise e, s)"
  by (simp add: raise_def)

lemma sys_exit_apply [simp]: "sys_exit c s = (Raise (SystemExit c), s)"
  by (simp add: sys_exit_def)

lemma emit_apply [simp]: "emit e s = (Return (), s\<lparr>trace := trace s @ [e]\<rparr>)"
  by (simp add: emit_def)

lemma bnd_apply: "bnd m f s = (case m s of (Return x, s') \<Rightarrow> f x s' | (Raise e, s') \<Rightarrow> (Raise e, s'))"
  by (simp add: bnd_def)

lemma bnd_Return [simp]: "m s = (Return x, s') \<Longrightarrow> bnd m f s = f x s'"
  by (simp add: bnd_def)

lemma bnd_Raise [simp]: "m s = (Raise e, s') \<Longrightarrow> bnd m f s = (Raise e, s')"
  by (simp add: bnd_def)

lemma bnd_ret [simp]: "bnd (ret x) f = f x"
  by (rule ext) simp

lemma bnd_raise [simp]: "bnd (raise e) f = raise e"
  by (rule ext) simp

lemma print_out_apply [simp]:
  "print_out t s = (Return (), s\<lparr>trace := trace s @ [Print Stdout (t @ newline)]\<rparr>)"
  by (simp add: print_out_def)

lemma print_err_apply [simp]:
  "print_err t s = (Return (), s\<lparr>trace := trace s @ [Print Stderr (t @ newline)]\<rparr>)"
  by (simp add: print_err_def)

lemma try_except_Return [simp]: "m s = (Return x, s') \<Longrightarrow> try_except m h s = (Return x, s')"
  by (simp add: try_except_def)

lemma try_except_Raise [simp]: "m s = (Raise e, s') \<Longrightarrow> try_except m h s = h e s'"
  by (simp add: try_except_def)

lemma try_finally_close [simp]:
  "m s = (r, s') \<Longrightarrow>
   try_finally m ssh_close s = (r, s'\<lparr>session := Closed, trace := trace s' @ [SshClose]\<rparr>)"
  by (simp add: try_finally_def ssh_close_def)

lemma missing_config_apply [simp]:
  "missing_config s = (Raise (SystemExit 1),
     s\<lparr>trace := trace s @ [Print Stderr (''Error: Missing SSH configuration in .env file'' @ newline)]\<rparr>)"
  by (simp add: missing_config_def)

lemma load_env_Some [simp]: "env_file w = Some ls \<Longrightarrow> load_env w s = (Return (parse_env ls), s)"
  by (simp add: load_env_def)

lemma new_client_apply [simp]:
  "new_client s = (Return (), s\<lparr>session := Unconnected, trace := trace s @ [NewClient, SetPolicy]\<rparr>)"
  by (simp add: new_client_def)

lemma ssh_run_body_ok:
  assumes "connect_fault w host port user password = None" "exec_fault w command = None"
    "cmd_stdout w command = Inr out" "cmd_stderr w command = Inr err"
    "cmd_exit_status w command = Inr n"
  shows "ssh_run_body w host port user password command s =
    (Return n, s\<lparr>session := Connected,
       trace := trace s @ [Connect host port user password, ExecCommand command,
                  ReadStdout, ReadStderr, RecvExitStatus]
         @ (if decode_utf8 out \<noteq> [] then [Print Stdout (ascii_replace (decode_utf8 out))] else [])
         @ (if decode_utf8 err \<noteq> [] then [Print Stderr (ascii_replace (decode_utf8 err))] else [])\<rparr>)"
  using assms
  by (simp add: ssh_run_body_def ssh_connect_def exec_command_def read_stdout_def
      read_stderr_def recv_exit_status_def Let_def)

lemma ssh_run_ok:
  assumes "env_file w = Some ls"
    "parse_env ls ''SSH_HOST'' = Some host" "host \<noteq> []"
    "parse_env ls ''SSH_USER'' = Some user" "user \<noteq> []"
    "parse_env ls ''SSH_PASSWORD'' = Some password" "password \<noteq> []"
    "get_port (parse_env ls) = ret port"
    "connect_fault w host port user password = None" "exec_fault w command = None"
    "cmd_stdout w command = Inr out" "cmd_stderr w command = Inr err"
    "cmd_exit_status w command = Inr n"
  shows "ssh_run w command s =
    (Return n, s\<lparr>session := Closed,
       trace := trace s @ [NewClient, SetPolicy, Connect host port user password,
                  ExecCommand command, ReadStdout, ReadStderr, RecvExitStatus]
         @ (if decode_utf8 out \<noteq> [] then [Print Stdout (ascii_replace (decode_utf8 out))] else [])
         @ (if decode_utf8 err \<noteq> [] then [Print Stderr (ascii_replace (decode_utf8 err))] else [])
         @ [SshClose]\<rparr>)"
  using assms
  by (simp add: ssh_run_def py_all_def truthy_def ssh_run_body_ok)

lemma parse_env_ok:
  "parse_env env_ok ''SSH_HOST'' = Some ''h''" "parse_env env_ok ''SSH_USER'' = Some ''u''"
  "parse_env env_ok ''SSH_PASSWORD'' = Some ''p''" "parse_env env_ok ''SSH_PORT'' = Some ''22''"
  by (simp_all add: parse_env_def env_ok_def parse_line_def py_strip_def py_isspace_def
      startswith_def Let_def)

lemma py_int_22: "py_int ''22'' = Some 22"
  by (simp add: py_int_def py_strip_def py_isspace_def py_digits_def is_digit_def digit_val_def)

lemma get_port_ok: "get_port (parse_env env_ok) = ret 22"
  by (simp add: get_port_def parse_env_ok py_int_22)

section \<open>Exit code of the command runner\<close>

text \<open>
  C2. With a complete configuration and a command on the command line: when the connection
  and the command succeed and the remote command ends with exit status \<open>n\<close>,
  \<^verbatim>\<open>ssh_run\<close> returns \<open>n\<close> and the script ends with \<^verbatim>\<open>sys.exit(n)\<close>; when
  \<^verbatim>\<open>connect\<close> raises \<^verbatim>\<open>AuthenticationException\<close> the script ends with
  \<^verbatim>\<open>sys.exit(1)\<close>, whatever exit status the remote side would report.
\<close>

theorem ssh_exit_code:
  assumes "env_file w = Some ls"
    and "parse_env ls ''SSH_HOST'' = Some host" and "host \<noteq> []"
    and "parse_env ls ''SSH_USER'' = Some user" and "user \<noteq> []"
    and "parse_env ls ''SSH_PASSWORD'' = Some password" and "password \<noteq> []"
    and "get_port (parse_env ls) = ret port"
    and "2 \<le> length argv" and "command = py_join '' '' (tl argv)"
  shows "(connect_fault w host port user password = None \<and> exec_fault w command = None
          \<and> cmd_stdout w command = Inr out \<and> cmd_stderr w command = Inr err
          \<and> cmd_exit_status w command = Inr n
          \<longrightarrow> fst (ssh_run w command s) = Return n
              \<and> fst (ssh_main w argv s) = Raise (SystemExit n))
       \<and> (connect_fault w host port user password = Some (AuthenticationException m)
          \<longrightarrow> fst (ssh_main w argv s) = Raise (SystemExit 1))"
proof (intro conjI impI)
  assume ok: "connect_fault w host port user password = None \<and> exec_fault w command = None
          \<and> cmd_stdout w command = Inr out \<and> cmd_stderr w command = Inr err
          \<and> cmd_exit_status w command = Inr n"
  with assms show run: "fst (ssh_run w command s) = Return n"
    by (simp add: ssh_run_ok)
  from ok assms have "ssh_run w command s = (Return n, snd (ssh_run w command s))"
    by (simp add: ssh_run_ok)
  with assms show "fst (ssh_main w argv s) = Raise (SystemExit n)"
    by (simp add: ssh_main_def)
next
  assume auth: "connect_fault w host port user password = Some (AuthenticationException m)"
  have "ssh_run_body w host port user password command s' =
      (Raise (AuthenticationException m), s'\<lparr>trace := trace s' @ [Connect host port user password]\<rparr>)" for s'
    using auth by (simp add: ssh_run_body_def ssh_connect_def)
  with assms have "fst (ssh_run w command s) = Raise (SystemExit 1)"
    by (simp add: ssh_run_def py_all_def truthy_def exit_handler_def)
  then have "ssh_run w command s = (Raise (SystemExit 1), snd (ssh_run w command s))"
    by (metis prod.collapse)
  with assms show "fst (ssh_main w argv s) = Raise (SystemExit 1)"
    by (simp add: ssh_main_def)
qed

theorem ssh_exit_code_witness:
  "fst (ssh_main world_ok [''ssh_run.py'', ''exit'', ''17''] state0) = Raise (SystemExit 17)
   \<and> fst (ssh_main world_auth [''ssh_run.py'', ''exit'', ''17''] state0) = Raise (SystemExit 1)"
proof -
  have a: "fst (ssh_main world_ok [''ssh_run.py'', ''exit'', ''17''] state0) = Raise (SystemExit 17)"
    using ssh_exit_code [of world_ok env_ok "''h''" "''u''" "''p''" 22
        "[''ssh_run.py'', ''exit'', ''17'']" "''exit 17''"
        "[CHR ''h'', CHR ''i'', CHR 0xFF, CHR 0x0A]" "[]" 17 state0]
    by (simp add: world_ok_def parse_env_ok get_port_ok)
  have b: "fst (ssh_main world_auth [''ssh_run.py'', ''exit'', ''17''] state0) = Raise (SystemExit 1)"
    using ssh_exit_code [of world_auth env_ok "''h''" "''u''" "''p''" 22
        "[''ssh_run.py'', ''exit'', ''17'']" "''exit 17''" _ _ _ _ "''Authentication failed.''"]
    by (simp add: world_auth_def world_ok_def parse_env_ok get_port_ok)
  from a b show ?thesis by simp
qed

section \<open>Pre-flight checks\<close>

lemma get_port_bad:
  "config ''SSH_PORT'' = Some t \<Longrightarrow> py_int t = None \<Longrightarrow> get_port config = raise (ValueError t)"
  by (simp add: get_port_def)

lemma parse_env_bad_port:
  "parse_env env_bad_port ''SSH_HOST'' = None" "parse_env env_bad_port ''SSH_USER'' = Some ''u''"
  "parse_env env_bad_port ''SSH_PASSWORD'' = Some ''p''"
  "parse_env env_bad_port ''SSH_PORT'' = Some ''abc''"
  by (simp_all add: parse_env_def env_bad_port_def parse_line_def py_strip_def py_isspace_def
      startswith_def Let_def)

lemma parse_env_no_host:
  "parse_env env_no_host ''SSH_HOST'' = None" "parse_env env_no_host ''SSH_USER'' = Some ''u''"
  "parse_env env_no_host ''SSH_PASSWORD'' = Some ''p''"
  "parse_env env_no_host ''SSH_PORT'' = None"
  by (simp_all add: parse_env_def env_no_host_def parse_line_def py_strip_def py_isspace_def
      startswith_def Let_def)

lemma py_int_abc: "py_int ''abc'' = None"
  by (simp add: py_int_def py_strip_def py_isspace_def py_digits_def is_digit_def)

text \<open>
  C10. When \<^verbatim>\<open>SSH_PORT\<close> is present in the configuration and \<^verbatim>\<open>int\<close> rejects it, each
  of the three entry points raises \<^verbatim>\<open>ValueError\<close> and nothing catches it: the state is
  unchanged, so nothing was printed, the credentials were not checked and no client was
  created. The scripts run as programs end with the same exception.
\<close>

theorem bad_port_raises:
  assumes "env_file w = Some ls" and "parse_env ls ''SSH_PORT'' = Some t" and "py_int t = None"
  shows "ssh_run w command s = (Raise (ValueError t), s)
       \<and> scp_copy w local_path remote_path s = (Raise (ValueError t), s)
       \<and> upload_images w s = (Raise (ValueError t), s)
       \<and> (2 \<le> length argv \<longrightarrow> ssh_main w argv s = (Raise (ValueError t), s))
       \<and> (3 \<le> length argv \<longrightarrow> scp_main w argv s = (Raise (ValueError t), s))"
proof -
  have port: "get_port (parse_env ls) = raise (ValueError t)"
    using assms by (simp add: get_port_bad)
  have a: "ssh_run w c s = (Raise (ValueError t), s)" for c
    using assms(1) port by (simp add: ssh_run_def)
  have b: "scp_copy w lp rp s = (Raise (ValueError t), s)" for lp rp
    using assms(1) port by (simp add: scp_copy_def)
  have c: "upload_images w s = (Raise (ValueError t), s)"
    using assms(1) port by (simp add: upload_images_def)
  show ?thesis
    using a b c by (simp add: ssh_main_def scp_main_def)
qed

theorem bad_port_raises_witness:
  "ssh_run world_bad_port ''uptime'' state0 = (Raise (ValueError ''abc''), state0)
   \<and> scp_copy world_bad_port ''dist'' ''/srv/dist'' state0 = (Raise (ValueError ''abc''), state0)
   \<and> upload_images world_bad_port state0 = (Raise (ValueError ''abc''), state0)
   \<and> ssh_main world_bad_port [''ssh_run.py'', ''uptime''] state0 = (Raise (ValueError ''abc''), state0)
   \<and> scp_main world_bad_port [''scp_run.py'', ''dist'', ''/srv/dist''] state0
       = (Raise (ValueError ''abc''), state0)"
  using bad_port_raises [of world_bad_port env_bad_port "''abc''" "''uptime''" state0
      "''dist''" "''/srv/dist''" "[''ssh_run.py'', ''uptime'']"]
    bad_port_raises [of world_bad_port env_bad_port "''abc''" "''uptime''" state0
      "''dist''" "''/srv/dist''" "[''scp_run.py'', ''dist'', ''/srv/dist'']"]
  by (simp add: world_bad_port_def world_ok_def parse_env_bad_port py_int_abc)

text \<open>
  The configuration check does not come first. With no \<^verbatim>\<open>SSH_HOST\<close> and
  \<^verbatim>\<open>SSH_PORT=abc\<close>, \<^verbatim>\<open>ssh_run\<close> ends with \<^verbatim>\<open>ValueError\<close>, not with
  \<^verbatim>\<open>sys.exit(1)\<close>, and prints nothing.
\<close>

theorem missing_config_counterexample:
  "parse_env env_bad_port ''SSH_HOST'' = None
   \<and> env_file world_bad_port = Some env_bad_port
   \<and> fst (ssh_run world_bad_port ''uptime'' state0) = Raise (ValueError ''abc'')
   \<and> fst (ssh_run world_bad_port ''uptime'' state0) \<noteq> Raise (SystemExit 1)
   \<and> trace (snd (ssh_run world_bad_port ''uptime'' state0)) = []"
  by (simp add: ssh_run_def world_bad_port_def world_ok_def get_port_def parse_env_bad_port
      py_int_abc state0_def)

text \<open>
  C5, amended. When \<^verbatim>\<open>SSH_PORT\<close> is absent or \<^verbatim>\<open>int\<close> accepts it, and one of
  \<^verbatim>\<open>SSH_HOST\<close>, \<^verbatim>\<open>SSH_USER\<close>, \<^verbatim>\<open>SSH_PASSWORD\<close> is absent or empty, each of the
  three entry points prints the configuration error on standard error and ends with
  \<^verbatim>\<open>sys.exit(1)\<close>; the state is otherwise unchanged: no client was created and no
  connection attempted.
\<close>

theorem missing_config_rejected:
  assumes "env_file w = Some ls" and "get_port (parse_env ls) = ret port"
    and "k \<in> {''SSH_HOST'', ''SSH_USER'', ''SSH_PASSWORD''}"
    and "parse_env ls k = None \<or> parse_env ls k = Some []"
  shows "ssh_run w command s = (Raise (SystemExit 1),
           s\<lparr>trace := trace s @ [Print Stderr (''Error: Missing SSH configuration in .env file'' @ newline)]\<rparr>)
       \<and> scp_copy w local_path remote_path s = (Raise (SystemExit 1),
           s\<lparr>trace := trace s @ [Print Stderr (''Error: Missing SSH configuration in .env file'' @ newline)]\<rparr>)
       \<and> upload_images w s = (Raise (SystemExit 1),
           s\<lparr>trace := trace s @ [Print Stderr (''Error: Missing SSH configuration in .env file'' @ newline)]\<rparr>)"
proof -
  have "\<not> py_all [parse_env ls ''SSH_HOST'', parse_env ls ''SSH_USER'', parse_env ls ''SSH_PASSWORD'']"
    using assms(3,4) by (auto simp: py_all_def truthy_def)
  then show ?thesis
    using assms(1,2) by (simp add: ssh_run_def scp_copy_def upload_images_def)
qed

theorem missing_config_rejected_witness:
  "ssh_run world_no_host ''uptime'' state0 = (Raise (SystemExit 1),
     state0\<lparr>trace := [Print Stderr (''Error: Missing SSH configuration in .env file'' @ newline)]\<rparr>)
   \<and> scp_copy world_no_host ''dist'' ''/srv/dist'' state0 = (Raise (SystemExit 1),
     state0\<lparr>trace := [Print Stderr (''Error: Missing SSH configuration in .env file'' @ newline)]\<rparr>)
   \<and> upload_images world_no_host state0 = (Raise (SystemExit 1),
     state0\<lparr>trace := [Print Stderr (''Error: Missing SSH configuration in .env file'' @ newline)]\<rparr>)"
  using missing_config_rejected [of world_no_host env_no_host 22 "''SSH_HOST''" "''uptime''" state0
      "''dist''" "''/srv/dist''"]
  by (simp add: world_no_host_def world_ok_def parse_env_no_host get_port_def state0_def)

section \<open>Draining the streams and decoding them\<close>

declare decode_replace.simps [simp del] decode_strict.simps [simp del]

lemma decode_replace_Nil [simp]: "decode_replace [] = []"
  by (simp add: decode_replace.simps)

lemma decode_replace_eq_Nil [simp]: "decode_replace bs = [] \<longleftrightarrow> bs = []"
  by (subst decode_replace.simps) simp

lemma decode_utf8_eq_Nil [simp]: "decode_utf8 b = [] \<longleftrightarrow> b = []"
  by (simp add: decode_utf8_def)

lemma decode_strict_agrees:
  "decode_strict bs = Some cps \<Longrightarrow> decode_replace bs = cps"
proof (induction bs arbitrary: cps rule: decode_strict.induct)
  case (1 bs)
  show ?case
  proof (cases "bs = []")
    case True
    with "1.prems" show ?thesis by (simp add: decode_strict.simps)
  next
    case False
    from "1.prems" False obtain cp rest where
      u: "fst (utf8_unit bs) = Some cp" and
      r: "decode_strict (drop (snd (utf8_unit bs)) bs) = Some rest" and
      c: "cps = cp # rest"
      by (subst (asm) decode_strict.simps) (auto split: option.splits)
    from "1.IH" [OF False u r] have "decode_replace (drop (snd (utf8_unit bs)) bs) = rest" .
    with False u c show ?thesis
      by (subst decode_replace.simps) simp
  qed
qed

lemma decode_strict_fails:
  "decode_strict bs = None \<Longrightarrow> 65533 \<in> set (decode_replace bs)"
proof (induction bs rule: decode_strict.induct)
  case (1 bs)
  from "1.prems" have ne: "bs \<noteq> []"
    by (subst (asm) decode_strict.simps) (auto split: if_splits)
  show ?case
  proof (cases "fst (utf8_unit bs)")
    case None
    with ne show ?thesis by (subst decode_replace.simps) simp
  next
    case (Some cp)
    with "1.prems" ne have "decode_strict (drop (snd (utf8_unit bs)) bs) = None"
      by (subst (asm) decode_strict.simps) (auto split: option.splits)
    from "1.IH" [OF ne Some this] ne show ?thesis
      by (subst decode_replace.simps) simp
  qed
qed

lemma ascii_replace_ascii: "list_all (\<lambda>c. of_char c < (128::nat)) (ascii_replace t)"
  by (induction t) (auto simp: ascii_replace_def)

lemma ssh_run_body_order:
  "\<exists>evs. trace (snd (ssh_run_body w host port user password command s)) = trace s @ evs
     \<and> (if RecvExitStatus \<in> set evs
        then \<exists>post. evs = [Connect host port user password, ExecCommand command,
               ReadStdout, ReadStderr, RecvExitStatus] @ post
        else True)"
  by (cases "connect_fault w host port user password"; cases "exec_fault w command";
      cases "cmd_stdout w command"; cases "cmd_stderr w command"; cases "cmd_exit_status w command")
     (simp_all add: ssh_run_body_def ssh_connect_def exec_command_def read_stdout_def
       read_stderr_def recv_exit_status_def Let_def)

text \<open>
  C6. With a complete configuration, in every world: if \<^verbatim>\<open>ssh_run\<close> reads the exit
  status at all, it has read standard output and then standard error before, each in one
  \<^verbatim>\<open>read()\<close> to the end of the stream. When the calls succeed, the run returns the exit
  status whatever bytes the two streams hold. Decoding never fails: where strict UTF-8
  decoding of a byte sequence succeeds the decoded text is the same, where it fails the
  text holds U+FFFD in place of the bytes in error; and what is printed is ASCII.
\<close>

theorem ssh_run_drains_then_decodes:
  assumes "env_file w = Some ls"
    and "parse_env ls ''SSH_HOST'' = Some host" and "host \<noteq> []"
    and "parse_env ls ''SSH_USER'' = Some user" and "user \<noteq> []"
    and "parse_env ls ''SSH_PASSWORD'' = Some password" and "password \<noteq> []"
    and "get_port (parse_env ls) = ret port"
  shows "(\<exists>evs. trace (snd (ssh_run w command s)) = trace s @ evs
          \<and> (if RecvExitStatus \<in> set evs
             then \<exists>post. evs = [NewClient, SetPolicy, Connect host port user password,
                    ExecCommand command, ReadStdout, ReadStderr, RecvExitStatus] @ post
             else True))
       \<and> (if connect_fault w host port user password = None \<and> exec_fault w command = None
             \<and> cmd_stdout w command = Inr out \<and> cmd_stderr w command = Inr err
             \<and> cmd_exit_status w command = Inr n
          then ssh_run w command s =
            (Return n, s\<lparr>session := Closed,
               trace := trace s @ [NewClient, SetPolicy, Connect host port user password,
                   ExecCommand command, ReadStdout, ReadStderr, RecvExitStatus]
                 @ (if out \<noteq> [] then [Print Stdout (ascii_replace (decode_utf8 out))] else [])
                 @ (if err \<noteq> [] then [Print Stderr (ascii_replace (decode_utf8 err))] else [])
                 @ [SshClose]\<rparr>)
          else True)
       \<and> (case decode_strict (map of_char b) of
            Some cps \<Rightarrow> decode_utf8 b = cps
          | None \<Rightarrow> 65533 \<in> set (decode_utf8 b))
       \<and> list_all (\<lambda>c. of_char c < (128::nat)) (ascii_replace (decode_utf8 b))"
proof (intro conjI)
  obtain evs where evs: "trace (snd (ssh_run_body w host port user password command
        (s\<lparr>session := Unconnected, trace := trace s @ [NewClient, SetPolicy]\<rparr>)))
      = (trace s @ [NewClient, SetPolicy]) @ evs"
    and ord: "if RecvExitStatus \<in> set evs
        then \<exists>post. evs = [Connect host port user password, ExecCommand command,
               ReadStdout, ReadStderr, RecvExitStatus] @ post
        else True"
    using ssh_run_body_order [of w host port user password command
        "s\<lparr>session := Unconnected, trace := trace s @ [NewClient, SetPolicy]\<rparr>"]
    by auto
  let ?s1 = "s\<lparr>session := Unconnected, trace := trace s @ [NewClient, SetPolicy]\<rparr>"
  obtain r s2 where body: "ssh_run_body w host port user password command ?s1 = (r, s2)"
    by (cases "ssh_run_body w host port user password command ?s1") auto
  with evs have tr2: "trace s2 = trace s @ [NewClient, SetPolicy] @ evs" by simp
  have "\<exists>tl. trace (snd (try_except (ssh_run_body w host port user password command) exit_handler ?s1))
        = trace s2 @ tl \<and> RecvExitStatus \<notin> set tl"
    using body by (cases r) (auto simp: try_except_def exit_handler_def)
  then obtain tl where tl: "trace (snd (try_except (ssh_run_body w host port user password command) exit_handler ?s1))
        = trace s2 @ tl" and ntl: "RecvExitStatus \<notin> set tl" by auto
  obtain r3 s3 where te: "try_except (ssh_run_body w host port user password command) exit_handler ?s1 = (r3, s3)"
    by (cases "try_except (ssh_run_body w host port user password command) exit_handler ?s1") auto
  have run: "ssh_run w command s = (r3, s3\<lparr>session := Closed, trace := trace s3 @ [SshClose]\<rparr>)"
    using assms te by (simp add: ssh_run_def py_all_def truthy_def)
  have "trace (snd (ssh_run w command s)) = trace s @ ([NewClient, SetPolicy] @ evs @ tl @ [SshClose])"
    using run te tl tr2 by simp
  moreover have "if RecvExitStatus \<in> set ([NewClient, SetPolicy] @ evs @ tl @ [SshClose])
             then \<exists>post. [NewClient, SetPolicy] @ evs @ tl @ [SshClose]
                  = [NewClient, SetPolicy, Connect host port user password,
                    ExecCommand command, ReadStdout, ReadStderr, RecvExitStatus] @ post
             else True"
    using ord ntl by (auto split: if_splits)
  ultimately show "\<exists>evs. trace (snd (ssh_run w command s)) = trace s @ evs
          \<and> (if RecvExitStatus \<in> set evs
             then \<exists>post. evs = [NewClient, SetPolicy, Connect host port user password,
                    ExecCommand command, ReadStdout, ReadStderr, RecvExitStatus] @ post
             else True)"
    by blast
next
  show "if connect_fault w host port user password = None \<and> exec_fault w command = None
             \<and> cmd_stdout w command = Inr out \<and> cmd_stderr w command = Inr err
             \<and> cmd_exit_status w command = Inr n
          then ssh_run w command s =
            (Return n, s\<lparr>session := Closed,
               trace := trace s @ [NewClient, SetPolicy, Connect host port user password,
                   ExecCommand command, ReadStdout, ReadStderr, RecvExitStatus]
                 @ (if out \<noteq> [] then [Print Stdout (ascii_replace (decode_utf8 out))] else [])
                 @ (if err \<noteq> [] then [Print Stderr (ascii_replace (decode_utf8 err))] else [])
                 @ [SshClose]\<rparr>)
          else True"
    using assms by (simp add: ssh_run_ok)
next
  show "case decode_strict (map of_char b) of
            Some cps \<Rightarrow> decode_utf8 b = cps
          | None \<Rightarrow> 65533 \<in> set (decode_utf8 b)"
    by (simp add: decode_utf8_def decode_strict_agrees decode_strict_fails split: option.split)
next
  show "list_all (\<lambda>c. of_char c < (128::nat)) (ascii_replace (decode_utf8 b))"
    by (rule ascii_replace_ascii)
qed

lemma char_of_h: "char_of (104::nat) = CHR ''h''"
  by code_simp

lemma char_of_i: "char_of (105::nat) = CHR ''i''"
  by code_simp

lemma char_of_nl: "char_of (10::nat) = CHR 0x0A"
  by code_simp

lemma decode_example:
  "decode_replace [104, 105, 255, 10] = [104, 105, 65533, 10]"
  "decode_strict [104, 105, 255, 10] = None"
  "ascii_replace [104, 105, 65533, 10] = [CHR ''h'', CHR ''i'', CHR ''?'', CHR 0x0A]"
  by (simp_all add: decode_replace.simps decode_strict.simps ascii_replace_def
      char_of_h char_of_i char_of_nl)

theorem ssh_run_drains_then_decodes_witness:
  "ssh_run world_ok ''uptime'' state0 =
     (Return 17, state0\<lparr>session := Closed,
        trace := [NewClient, SetPolicy, Connect ''h'' 22 ''u'' ''p'', ExecCommand ''uptime'',
          ReadStdout, ReadStderr, RecvExitStatus,
          Print Stdout [CHR ''h'', CHR ''i'', CHR ''?'', CHR 0x0A], SshClose]\<rparr>)
   \<and> 65533 \<in> set (decode_utf8 [CHR ''h'', CHR ''i'', CHR 0xFF, CHR 0x0A])"
  using ssh_run_drains_then_decodes [where w = world_ok and ls = env_ok and host = "''h''"
      and user = "''u''" and password = "''p''" and port = 22 and command = "''uptime''"
      and out = "[CHR ''h'', CHR ''i'', CHR 0xFF, CHR 0x0A]" and err = "[]" and n = 17
      and s = state0 and b = "[CHR ''h'', CHR ''i'', CHR 0xFF, CHR 0x0A]"]
  by (simp add: world_ok_def parse_env_ok get_port_ok decode_utf8_def decode_example state0_def)

section \<open>Rules for the transfer calls and the upload loop\<close>

declare str_nat.simps [simp del]

lemma sftp_put_ok:
  "is_file nd \<Longrightarrow> put_fault w rp = None \<Longrightarrow>
   sftp_put w lp nd rp s =
     (Return (), s\<lparr>rfiles := (rfiles s)(rp \<mapsto> content nd), trace := trace s @ [Put lp rp]\<rparr>)"
  by (cases nd) (simp_all add: sftp_put_def)

lemma sftp_put_fault:
  "is_file nd \<Longrightarrow> put_fault w rp = Some e \<Longrightarrow>
   sftp_put w lp nd rp s = (Raise e, s\<lparr>trace := trace s @ [Put lp rp]\<rparr>)"
  by (cases nd) (simp_all add: sftp_put_def)

lemma sftp_put_directory:
  "sftp_put w lp (Directory cs) rp s =
     (Raise (IOError ''[Errno 21] Is a directory''), s\<lparr>trace := trace s @ [Put lp rp]\<rparr>)"
  by (simp add: sftp_put_def)

lemma store_Nil [simp]: "store rdir [] m = m"
  by (simp add: store_def)

lemma store_Cons [simp]:
  "store rdir (f # fs) m = store rdir fs (m(rdir @ ''/'' @ fst f \<mapsto> content (snd f)))"
  by (simp add: store_def)

lemma store_append [simp]: "store rdir (fs @ gs) m = store rdir gs (store rdir fs m)"
  by (simp add: store_def)

lemma upload_loop_ok:
  "list_all (put_ok w rdir) fs \<Longrightarrow>
   upload_loop w ldir rdir n i fs s =
     (Return (), s\<lparr>rfiles := store rdir fs (rfiles s),
        trace := trace s @ loop_events ldir rdir n i fs\<rparr>)"
proof (induction fs arbitrary: i s)
  case Nil
  then show ?case by simp
next
  case (Cons f fs)
  then have ok: "put_ok w rdir f" and rest: "list_all (put_ok w rdir) fs" by simp_all
  from ok show ?case
    by (simp add: put_ok_def sftp_put_ok Cons.IH [OF rest] step_events_def fun_upd_def)
qed

lemma upload_loop_fail:
  assumes "list_all (put_ok w rdir) pre"
    and "\<And>s'. sftp_put w (LChild ldir (fst f)) (snd f) (rdir @ ''/'' @ fst f) s' =
           (Raise e, s'\<lparr>trace := trace s' @ [Put (LChild ldir (fst f)) (rdir @ ''/'' @ fst f)]\<rparr>)"
  shows "upload_loop w ldir rdir n i (pre @ f # post) s =
     (Raise e, s\<lparr>rfiles := store rdir pre (rfiles s),
        trace := trace s @ loop_events ldir rdir n i pre
                 @ [Put (LChild ldir (fst f)) (rdir @ ''/'' @ fst f)]\<rparr>)"
  using assms(1)
proof (induction pre arbitrary: i s)
  case Nil
  show ?case using assms(2) by simp
next
  case (Cons g pre)
  then have ok: "put_ok w rdir g" and rest: "list_all (put_ok w rdir) pre" by simp_all
  from ok show ?case
    by (simp add: put_ok_def sftp_put_ok Cons.IH [OF rest] step_events_def fun_upd_def)
qed

lemma loop_events_concat:
  "loop_events ldir rdir n i fs =
     concat (map (\<lambda>k. step_events ldir rdir n (Suc (i + k)) (fs ! k)) [0..<length fs])"
proof (induction fs arbitrary: i)
  case Nil
  then show ?case by simp
next
  case (Cons f fs)
  have "[0..<length (f # fs)] = 0 # map Suc [0..<length fs]"
    by (simp add: upt_conv_Cons map_Suc_upt del: upt_Suc)
  then show ?case
    by (simp add: Cons.IH comp_def del: upt_Suc)
qed

lemma loop_events_batch: "loop_events ldir rdir n 0 fs = batch_events ldir rdir n fs"
  by (simp add: loop_events_concat batch_events_def)

lemma ensure_remote_dir_ok:
  "mkdir_ok w p \<Longrightarrow>
   ensure_remote_dir w p s =
     (Return (), s\<lparr>rdirs := (if mkdir_fault w p = None then insert p (rdirs s) else rdirs s),
        trace := trace s @ [Mkdir p]\<rparr>)"
  by (cases "mkdir_fault w p")
     (auto simp: mkdir_ok_def ensure_remote_dir_def sftp_mkdir_def try_except_def insert_absorb)

lemma glob_all [simp]: "glob_suffix d [] = children d"
  by (simp add: glob_suffix_def endswith_def)

lemma ssh_connect_ok:
  "connect_fault w host port user password = None \<Longrightarrow>
   ssh_connect w host port user password s =
     (Return (), s\<lparr>session := Connected, trace := trace s @ [Connect host port user password]\<rparr>)"
  by (simp add: ssh_connect_def)

lemma open_sftp_ok:
  "open_sftp_fault w = None \<Longrightarrow> open_sftp w s = (Return (), s\<lparr>trace := trace s @ [OpenSftp]\<rparr>)"
  by (simp add: open_sftp_def)

lemma sftp_close_ok:
  "sftp_close_fault w = None \<Longrightarrow> sftp_close w s = (Return (), s\<lparr>trace := trace s @ [SftpClose]\<rparr>)"
  by (simp add: sftp_close_def)

lemma scp_copy_configured:
  assumes "configured w host port user password" and "local_fs w local_path = Some local"
  shows "scp_copy w local_path remote_path s =
     try_finally
       (try_except (scp_copy_body w host port user password local_path local remote_path)
          return_handler)
       ssh_close
       (s\<lparr>session := Unconnected,
          trace := trace s @ [Print Stdout (''Connecting to '' @ host @ ''...'' @ newline),
                     NewClient, SetPolicy]\<rparr>)"
  using assms by (auto simp: configured_def scp_copy_def py_all_def truthy_def)

lemma upload_images_configured:
  assumes "configured w host port user password" and "local_fs w (images_dir w) = Some local_dir"
  shows "upload_images w s =
     try_finally
       (try_except (upload_images_body w host port user password local_dir) exit_handler)
       ssh_close
       (s\<lparr>session := Unconnected,
          trace := trace s @ [Print Stdout (''Connecting to '' @ host @ ''...'' @ newline),
                     NewClient, SetPolicy]\<rparr>)"
  using assms by (auto simp: configured_def upload_images_def py_all_def truthy_def)

lemma scp_copy_body_batch:
  assumes "connect_fault w host port user password = None" and "open_sftp_fault w = None"
    and "sftp_close_fault w = None" and "mkdir_ok w remote_path"
    and "files = filter (\<lambda>f. is_file (snd f)) cs" and "files \<noteq> []"
    and "list_all (put_ok w remote_path) files"
  shows "scp_copy_body w host port user password local_path (Directory cs) remote_path s =
     (Return 0, s\<lparr>session := Connected,
        rdirs := (if mkdir_fault w remote_path = None then insert remote_path (rdirs s)
                  else rdirs s),
        rfiles := store remote_path files (rfiles s),
        trace := trace s @ [Connect host port user password, OpenSftp, Mkdir remote_path,
            Print Stdout (''Uploading '' @ str_nat (length files) @ '' files...'' @ newline)]
          @ batch_events local_path remote_path (length files) files
          @ [Print Stdout (''Done! Uploaded '' @ str_nat (length files) @ '' files.'' @ newline),
             SftpClose]\<rparr>)"
  using assms(5,6,7) assms(1-4)
  by (simp add: scp_copy_body_def ssh_connect_ok open_sftp_ok sftp_close_ok
      ensure_remote_dir_ok upload_loop_ok loop_events_batch Let_def)

lemma upload_images_body_batch:
  assumes "connect_fault w host port user password = None" and "open_sftp_fault w = None"
    and "sftp_close_fault w = None" and "mkdir_ok w remote_dir"
    and "files = glob_suffix d ''.png'' @ glob_suffix d ''.jpg'' @ glob_suffix d ''.webp''"
    and "files \<noteq> []"
    and "list_all (put_ok w remote_dir) files"
  shows "upload_images_body w host port user password d s =
     (Return (), s\<lparr>session := Connected,
        rdirs := (if mkdir_fault w remote_dir = None then insert remote_dir (rdirs s)
                  else rdirs s),
        rfiles := store remote_dir files (rfiles s),
        trace := trace s @ [Connect host port user password, OpenSftp, Mkdir remote_dir,
            Print Stdout (''Uploading '' @ str_nat (length files) @ '' images...'' @ newline)]
          @ batch_events (images_dir w) remote_dir (length files) files
          @ [Print Stdout (''Done! Uploaded '' @ str_nat (length files) @ '' images.'' @ newline),
             SftpClose]\<rparr>)"
  unfolding upload_images_body_def Let_def assms(5) [symmetric]
  using assms(6,7) assms(1-4)
  by (simp add: ssh_connect_ok open_sftp_ok sftp_close_ok
      ensure_remote_dir_ok upload_loop_ok loop_events_batch)

section \<open>Progress lines\<close>

text \<open>
  C4. With a complete configuration and a connection, a channel and a directory creation that
  succeed (or fail with \<^verbatim>\<open>IOError\<close>): when every file of a non-empty batch uploads, the
  trace of \<^verbatim>\<open>scp_copy\<close> on a directory, and of \<^verbatim>\<open>upload_images\<close>, is the
  preamble, then for each file \<open>k = 1, \<dots>, n\<close> in order its upload, followed by the
  line \<^verbatim>\<open>Uploaded k/n\<close> exactly when \<open>k\<close> is a multiple of 10 or \<open>k = n\<close>
  (\<open>step_events\<close>), then the closing lines. No other progress line is printed.
\<close>

theorem progress_cadence:
  assumes "configured w host port user password"
    and "connect_fault w host port user password = None" and "open_sftp_fault w = None"
    and "sftp_close_fault w = None"
  shows "(local_fs w local_path = Some (Directory cs)
            \<and> files = filter (\<lambda>f. is_file (snd f)) cs \<and> files \<noteq> []
            \<and> mkdir_ok w remote_path \<and> list_all (put_ok w remote_path) files
          \<longrightarrow> trace (snd (scp_copy w local_path remote_path s)) =
            trace s @ [Print Stdout (''Connecting to '' @ host @ ''...'' @ newline),
                NewClient, SetPolicy, Connect host port user password, OpenSftp,
                Mkdir remote_path,
                Print Stdout (''Uploading '' @ str_nat (length files) @ '' files...'' @ newline)]
              @ concat (map (\<lambda>k. step_events local_path remote_path (length files) (Suc k) (files ! k))
                  [0..<length files])
              @ [Print Stdout (''Done! Uploaded '' @ str_nat (length files) @ '' files.'' @ newline),
                 SftpClose, SshClose])
       \<and> (local_fs w (images_dir w) = Some d
            \<and> images = glob_suffix d ''.png'' @ glob_suffix d ''.jpg'' @ glob_suffix d ''.webp''
            \<and> images \<noteq> []
            \<and> mkdir_ok w remote_dir \<and> list_all (put_ok w remote_dir) images
          \<longrightarrow> trace (snd (upload_images w s)) =
            trace s @ [Print Stdout (''Connecting to '' @ host @ ''...'' @ newline),
                NewClient, SetPolicy, Connect host port user password, OpenSftp,
                Mkdir remote_dir,
                Print Stdout (''Uploading '' @ str_nat (length images) @ '' images...'' @ newline)]
              @ concat (map (\<lambda>k. step_events (images_dir w) remote_dir (length images) (Suc k) (images ! k))
                  [0..<length images])
              @ [Print Stdout (''Done! Uploaded '' @ str_nat (length images) @ '' images.'' @ newline),
                 SftpClose, SshClose])"
proof (intro conjI impI; elim conjE)
  assume fs: "local_fs w local_path = Some (Directory cs)"
    and f: "files = filter (\<lambda>f. is_file (snd f)) cs" and ne: "files \<noteq> []"
    and mk: "mkdir_ok w remote_path" and ok: "list_all (put_ok w remote_path) files"
  show "trace (snd (scp_copy w local_path remote_path s)) =
            trace s @ [Print Stdout (''Connecting to '' @ host @ ''...'' @ newline),
                NewClient, SetPolicy, Connect host port user password, OpenSftp,
                Mkdir remote_path,
                Print Stdout (''Uploading '' @ str_nat (length files) @ '' files...'' @ newline)]
              @ concat (map (\<lambda>k. step_events local_path remote_path (length files) (Suc k) (files ! k))
                  [0..<length files])
              @ [Print Stdout (''Done! Uploaded '' @ str_nat (length files) @ '' files.'' @ newline),
                 SftpClose, SshClose]"
    by (simp add: scp_copy_configured [OF assms(1) fs]
        scp_copy_body_batch [OF assms(2,3,4) mk f ne ok] batch_events_def)
next
  assume fs: "local_fs w (images_dir w) = Some d"
    and f: "images = glob_suffix d ''.png'' @ glob_suffix d ''.jpg'' @ glob_suffix d ''.webp''"
    and ne: "images \<noteq> []"
    and mk: "mkdir_ok w remote_dir" and ok: "list_all (put_ok w remote_dir) images"
  show "trace (snd (upload_images w s)) =
            trace s @ [Print Stdout (''Connecting to '' @ host @ ''...'' @ newline),
                NewClient, SetPolicy, Connect host port user password, OpenSftp,
                Mkdir remote_dir,
                Print Stdout (''Uploading '' @ str_nat (length images) @ '' images...'' @ newline)]
              @ concat (map (\<lambda>k. step_events (images_dir w) remote_dir (length images) (Suc k) (images ! k))
                  [0..<length images])
              @ [Print Stdout (''Done! Uploaded '' @ str_nat (length images) @ '' images.'' @ newline),
                 SftpClose, SshClose]"
    by (simp add: upload_images_configured [OF assms(1) fs]
        upload_images_body_batch [OF assms(2,3,4) mk f ne ok] batch_events_def)
qed

lemma configured_env_ok: "env_file w = Some env_ok \<Longrightarrow> configured w ''h'' 22 ''u'' ''p''"
  by (simp add: configured_def parse_env_ok get_port_ok)

lemma str_nat_examples:
  "str_nat 10 = ''10''" "str_nat 12 = ''12''"
  by (simp_all add: str_nat.simps digit_char_def) (code_simp+)

lemma length_batch12: "length batch12 = 12"
  by (simp add: batch12_def)

lemma batch12_regular:
  "filter (\<lambda>f. is_file (snd f)) batch12 = batch12" "batch12 \<noteq> []"
  by (simp_all add: batch12_def)

lemma batch12_put_ok: "put_fault w = (\<lambda>p. None) \<Longrightarrow> list_all (put_ok w rdir) batch12"
  by (simp add: batch12_def put_ok_def)

lemma upt_12: "[0..<12] = [0, 1, 2, 3, 4, 5, 6, 7, 8, 9, 10, 11]"
  by code_simp

lemma batch12_events:
  "concat (map (\<lambda>k. step_events ''dist'' ''/srv/dist'' 12 (Suc k) (batch12 ! k)) [0..<12]) =
     [Put (LChild ''dist'' ''01.png'') ''/srv/dist/01.png'',
      Put (LChild ''dist'' ''02.png'') ''/srv/dist/02.png'',
      Put (LChild ''dist'' ''03.png'') ''/srv/dist/03.png'',
      Put (LChild ''dist'' ''04.jpg'') ''/srv/dist/04.jpg'',
      Put (LChild ''dist'' ''05.png'') ''/srv/dist/05.png'',
      Put (LChild ''dist'' ''06.png'') ''/srv/dist/06.png'',
      Put (LChild ''dist'' ''07.png'') ''/srv/dist/07.png'',
      Put (LChild ''dist'' ''08.png'') ''/srv/dist/08.png'',
      Put (LChild ''dist'' ''09.png'') ''/srv/dist/09.png'',
      Put (LChild ''dist'' ''10.png'') ''/srv/dist/10.png'',
      Print Stdout (''Uploaded 10/12'' @ newline),
      Put (LChild ''dist'' ''11.png'') ''/srv/dist/11.png'',
      Put (LChild ''dist'' ''12.png'') ''/srv/dist/12.png'',
      Print Stdout (''Uploaded 12/12'' @ newline)]"
  by (simp add: upt_12 step_events_def progress_line_def str_nat_examples batch12_def)

theorem progress_cadence_witness:
  "trace (snd (scp_copy world_batch ''dist'' ''/srv/dist'' state0)) =
     [Print Stdout (''Connecting to h...'' @ newline), NewClient, SetPolicy,
      Connect ''h'' 22 ''u'' ''p'', OpenSftp, Mkdir ''/srv/dist'',
      Print Stdout (''Uploading 12 files...'' @ newline),
      Put (LChild ''dist'' ''01.png'') ''/srv/dist/01.png'',
      Put (LChild ''dist'' ''02.png'') ''/srv/dist/02.png'',
      Put (LChild ''dist'' ''03.png'') ''/srv/dist/03.png'',
      Put (LChild ''dist'' ''04.jpg'') ''/srv/dist/04.jpg'',
      Put (LChild ''dist'' ''05.png'') ''/srv/dist/05.png'',
      Put (LChild ''dist'' ''06.png'') ''/srv/dist/06.png'',
      Put (LChild ''dist'' ''07.png'') ''/srv/dist/07.png'',
      Put (LChild ''dist'' ''08.png'') ''/srv/dist/08.png'',
      Put (LChild ''dist'' ''09.png'') ''/srv/dist/09.png'',
      Put (LChild ''dist'' ''10.png'') ''/srv/dist/10.png'',
      Print Stdout (''Uploaded 10/12'' @ newline),
      Put (LChild ''dist'' ''11.png'') ''/srv/dist/11.png'',
      Put (LChild ''dist'' ''12.png'') ''/srv/dist/12.png'',
      Print Stdout (''Uploaded 12/12'' @ newline),
      Print Stdout (''Done! Uploaded 12 files.'' @ newline), SftpClose, SshClose]"
  using progress_cadence [where w = world_batch and host = "''h''" and port = 22
      and user = "''u''" and password = "''p''" and local_path = "''dist''"
      and remote_path = "''/srv/dist''" and s = state0
      and cs = "batch12 @ [(''old'', Directory [(''13.png'', RegularFile ''m'')])]"
      and files = batch12 and d = "Directory []" and images = "[]"]
  by (simp add: world_batch_def world_ok_def configured_env_ok mkdir_ok_def
      batch12_regular batch12_put_ok length_batch12 batch12_events str_nat_examples state0_def)

section \<open>What a program adds to the trace\<close>

lemma emits_ret [intro!, simp]: "emits P (ret x)"
  by (simp add: emits_def)

lemma emits_raise [intro!, simp]: "emits P (raise e)"
  by (simp add: emits_def)

lemma emits_sys_exit [intro!, simp]: "emits P (sys_exit c)"
  by (simp add: emits_def)

lemma emits_emit [intro]: "P e \<Longrightarrow> emits P (emit e)"
  by (simp add: emits_def)

lemma emits_bnd [intro!]:
  assumes "emits P m" and "\<And>x. emits P (f x)"
  shows "emits P (bnd m f)"
  unfolding emits_def
proof
  fix s
  obtain r s1 where m: "m s = (r, s1)" by (cases "m s") auto
  from assms(1) obtain a where a: "trace s1 = trace s @ a" "list_all P a"
    using m by (auto simp: emits_def dest: spec [of _ s])
  show "\<exists>evs. trace (snd (bnd m f s)) = trace s @ evs \<and> list_all P evs"
  proof (cases r)
    case (Return x)
    from assms(2) [of x] obtain b where "trace (snd (f x s1)) = trace s1 @ b" "list_all P b"
      by (auto simp: emits_def dest: spec [of _ s1])
    with a m Return show ?thesis by (intro exI [of _ "a @ b"]) (simp add: bnd_def)
  next
    case (Raise e)
    with a m show ?thesis by (intro exI [of _ a]) (simp add: bnd_def)
  qed
qed

lemma emits_try_except [intro!]:
  assumes "emits P m" and "\<And>e. emits P (h e)"
  shows "emits P (try_except m h)"
  unfolding emits_def
proof
  fix s
  obtain r s1 where m: "m s = (r, s1)" by (cases "m s") auto
  from assms(1) obtain a where a: "trace s1 = trace s @ a" "list_all P a"
    using m by (auto simp: emits_def dest: spec [of _ s])
  show "\<exists>evs. trace (snd (try_except m h s)) = trace s @ evs \<and> list_all P evs"
  proof (cases r)
    case (Return x)
    with a m show ?thesis by (intro exI [of _ a]) (simp add: try_except_def)
  next
    case (Raise e)
    from assms(2) [of e] obtain b where "trace (snd (h e s1)) = trace s1 @ b" "list_all P b"
      by (auto simp: emits_def dest: spec [of _ s1])
    with a m Raise show ?thesis by (intro exI [of _ "a @ b"]) (simp add: try_except_def)
  qed
qed

lemma emits_if [intro!]: "emits P m \<Longrightarrow> emits P n \<Longrightarrow> emits P (if c then m else n)"
  by simp

lemma emits_print_out [intro]: "P (Print Stdout (t @ newline)) \<Longrightarrow> emits P (print_out t)"
  by (simp add: emits_def)

lemma emits_print_err [intro]: "P (Print Stderr (t @ newline)) \<Longrightarrow> emits P (print_err t)"
  by (simp add: emits_def)

lemma emits_ssh_connect [intro]:
  "P (Connect host port user password) \<Longrightarrow> emits P (ssh_connect w host port user password)"
  by (cases "connect_fault w host port user password") (simp_all add: emits_def ssh_connect_def)

lemma emits_exec_command [intro]: "P (ExecCommand c) \<Longrightarrow> emits P (exec_command w c)"
  by (cases "exec_fault w c") (simp_all add: emits_def exec_command_def)

lemma emits_read_stdout [intro]: "P ReadStdout \<Longrightarrow> emits P (read_stdout w c)"
  by (cases "cmd_stdout w c") (simp_all add: emits_def read_stdout_def)

lemma emits_read_stderr [intro]: "P ReadStderr \<Longrightarrow> emits P (read_stderr w c)"
  by (cases "cmd_stderr w c") (simp_all add: emits_def read_stderr_def)

lemma emits_recv_exit_status [intro]: "P RecvExitStatus \<Longrightarrow> emits P (recv_exit_status w c)"
  by (cases "cmd_exit_status w c") (simp_all add: emits_def recv_exit_status_def)

lemma emits_open_sftp [intro]: "P OpenSftp \<Longrightarrow> emits P (open_sftp w)"
  by (cases "open_sftp_fault w") (simp_all add: emits_def open_sftp_def)

lemma emits_sftp_close [intro]: "P SftpClose \<Longrightarrow> emits P (sftp_close w)"
  by (cases "sftp_close_fault w") (simp_all add: emits_def sftp_close_def)

lemma emits_sftp_mkdir [intro]: "P (Mkdir p) \<Longrightarrow> emits P (sftp_mkdir w p)"
  by (cases "mkdir_fault w p") (simp_all add: emits_def sftp_mkdir_def)

lemma emits_ensure_remote_dir [intro]: "P (Mkdir p) \<Longrightarrow> emits P (ensure_remote_dir w p)"
  unfolding ensure_remote_dir_def by (intro emits_try_except emits_sftp_mkdir) simp_all

lemma emits_sftp_put [intro]: "P (Put lp rp) \<Longrightarrow> emits P (sftp_put w lp nd rp)"
  by (cases nd; cases "put_fault w rp") (simp_all add: emits_def sftp_put_def)

lemma emits_upload_loop [intro]:
  "(\<And>l r. P (Put l r)) \<Longrightarrow> (\<And>t. P (Print Stdout t)) \<Longrightarrow>
   emits P (upload_loop w ldir rdir n i fs)"
  by (induction fs arbitrary: i) auto

lemma emits_exit_handler [intro]: "(\<And>t. P (Print Stderr t)) \<Longrightarrow> emits P (exit_handler e)"
  unfolding exit_handler_def by auto

lemma emits_return_handler [intro]: "(\<And>t. P (Print Stderr t)) \<Longrightarrow> emits P (return_handler e)"
  unfolding return_handler_def by auto

lemma emits_load_env [intro]: "(\<And>t. P (Print Stderr t)) \<Longrightarrow> emits P (load_env w)"
  unfolding load_env_def by (cases "env_file w") auto

lemma emits_get_port [intro!, simp]: "emits P (get_port config)"
  unfolding get_port_def by (auto split: option.split)

lemma emits_missing_config [intro]: "(\<And>t. P (Print Stderr t)) \<Longrightarrow> emits P missing_config"
  unfolding missing_config_def by auto

lemma emits_ssh_run_body:
  "(\<And>e. e \<noteq> NewClient \<Longrightarrow> e \<noteq> SshClose \<Longrightarrow> P e) \<Longrightarrow>
   emits P (ssh_run_body w host port user password command)"
  unfolding ssh_run_body_def Let_def by auto

lemma emits_scp_copy_body:
  "(\<And>e. e \<noteq> NewClient \<Longrightarrow> e \<noteq> SshClose \<Longrightarrow> P e) \<Longrightarrow>
   emits P (scp_copy_body w host port user password local_path local remote_path)"
  unfolding scp_copy_body_def Let_def by auto

lemma emits_upload_images_body:
  "(\<And>e. e \<noteq> NewClient \<Longrightarrow> e \<noteq> SshClose \<Longrightarrow> P e) \<Longrightarrow>
   emits P (upload_images_body w host port user password local_dir)"
  unfolding upload_images_body_def Let_def by auto

section \<open>The session is closed exactly once\<close>

lemma session_safe_emits: "emits session_neutral m \<Longrightarrow> session_safe m"
  unfolding session_safe_def closes_once_def emits_def by blast

lemma session_safe_bnd:
  assumes "emits session_neutral m" and "\<And>x. session_safe (f x)"
  shows "session_safe (bnd m f)"
  unfolding session_safe_def
proof
  fix s :: state
  obtain r s1 where m: "m s = (r, s1)" by (cases "m s") auto
  from assms(1) obtain a where a: "trace s1 = trace s @ a" "list_all session_neutral a"
    using m by (auto simp: emits_def dest: spec [of _ s])
  show "closes_once s (snd (bnd m f s))"
  proof (cases r)
    case (Raise e)
    with a m show ?thesis by (auto simp: closes_once_def bnd_def)
  next
    case (Return x)
    from assms(2) [of x] have c: "closes_once s1 (snd (f x s1))"
      by (simp add: session_safe_def)
    have eq: "bnd m f s = f x s1" using m Return by (simp add: bnd_def)
    from c show ?thesis
      unfolding closes_once_def eq
    proof (elim disjE exE conjE)
      fix pre
      assume "trace (snd (f x s1)) = trace s1 @ pre" "list_all session_neutral pre"
      with a have "trace (snd (f x s1)) = trace s @ (a @ pre) \<and> list_all session_neutral (a @ pre)"
        by simp
      then show "(\<exists>pre. trace (snd (f x s1)) = trace s @ pre \<and> list_all session_neutral pre)
        \<or> (\<exists>pre mid. trace (snd (f x s1)) = trace s @ pre @ [NewClient, SetPolicy] @ mid @ [SshClose]
            \<and> list_all session_neutral pre \<and> list_all session_neutral mid
            \<and> session (snd (f x s1)) = Closed)"
        by blast
    next
      fix pre mid
      assume "trace (snd (f x s1)) = trace s1 @ pre @ [NewClient, SetPolicy] @ mid @ [SshClose]"
        "list_all session_neutral pre" "list_all session_neutral mid"
        "session (snd (f x s1)) = Closed"
      with a have "trace (snd (f x s1)) = trace s @ (a @ pre) @ [NewClient, SetPolicy] @ mid @ [SshClose]
          \<and> list_all session_neutral (a @ pre) \<and> list_all session_neutral mid
          \<and> session (snd (f x s1)) = Closed"
        by simp
      then show "(\<exists>pre. trace (snd (f x s1)) = trace s @ pre \<and> list_all session_neutral pre)
        \<or> (\<exists>pre mid. trace (snd (f x s1)) = trace s @ pre @ [NewClient, SetPolicy] @ mid @ [SshClose]
            \<and> list_all session_neutral pre \<and> list_all session_neutral mid
            \<and> session (snd (f x s1)) = Closed)"
        by blast
    qed
  qed
qed

lemma session_safe_then_exit:
  assumes "session_safe m"
  shows "session_safe (bnd m (\<lambda>x. sys_exit (g x)))"
  unfolding session_safe_def
proof
  fix s :: state
  obtain r s1 where m: "m s = (r, s1)" by (cases "m s") auto
  then have eq: "snd (bnd m (\<lambda>x. sys_exit (g x)) s) = snd (m s)"
    by (cases r) (simp_all add: bnd_def)
  from assms have "closes_once s (snd (m s))"
    by (simp add: session_safe_def)
  then show "closes_once s (snd (bnd m (\<lambda>x. sys_exit (g x)) s))"
    by (simp only: eq)
qed

lemma session_safe_scope:
  assumes "emits session_neutral m"
  shows "session_safe (bnd new_client (\<lambda>_. try_finally m ssh_close))"
  unfolding session_safe_def
proof
  fix s :: state
  let ?s1 = "s\<lparr>session := Unconnected, trace := trace s @ [NewClient, SetPolicy]\<rparr>"
  obtain r s2 where m: "m ?s1 = (r, s2)" by (cases "m ?s1") auto
  from assms obtain mid where mid: "trace s2 = trace ?s1 @ mid" "list_all session_neutral mid"
    using m by (auto simp: emits_def dest: spec [of _ ?s1])
  have "bnd new_client (\<lambda>_. try_finally m ssh_close) s
      = (r, s2\<lparr>session := Closed, trace := trace s2 @ [SshClose]\<rparr>)"
    using m by simp
  with mid show "closes_once s (snd (bnd new_client (\<lambda>_. try_finally m ssh_close) s))"
    unfolding closes_once_def
    by (intro disjI2 exI [of _ "[]"] exI [of _ mid]) simp
qed

lemma session_safe_if: "session_safe m \<Longrightarrow> session_safe n \<Longrightarrow> session_safe (if c then m else n)"
  by simp

lemma neutral_simps [simp]:
  "session_neutral (Print st t)" "session_neutral (Connect h p u pw)" "session_neutral OpenSftp"
  "session_neutral (Mkdir d)" "session_neutral (Put l r)" "session_neutral SftpClose"
  "session_neutral (ExecCommand c)" "session_neutral ReadStdout" "session_neutral ReadStderr"
  "session_neutral RecvExitStatus" "session_neutral SetPolicy"
  by (simp_all add: session_neutral_def)

lemma session_safe_ssh_run: "session_safe (ssh_run w command)"
  unfolding ssh_run_def Let_def
  by (intro session_safe_bnd session_safe_if session_safe_scope session_safe_emits
      emits_load_env emits_get_port emits_missing_config emits_try_except
      emits_ssh_run_body emits_exit_handler)
    (simp_all add: session_neutral_def)

lemma session_safe_case_option:
  "session_safe n \<Longrightarrow> (\<And>x. session_safe (f x)) \<Longrightarrow>
   session_safe (case opt of None \<Rightarrow> n | Some x \<Rightarrow> f x)"
  by (cases opt) simp_all

lemma session_safe_connecting:
  assumes "emits session_neutral m"
  shows "session_safe (bnd (print_out t) (\<lambda>_. bnd new_client (\<lambda>_. try_finally m ssh_close)))"
  by (rule session_safe_bnd) (auto intro: emits_print_out session_safe_scope assms)

lemma session_safe_scp_copy: "session_safe (scp_copy w local_path remote_path)"
  unfolding scp_copy_def Let_def
  by (intro session_safe_connecting session_safe_case_option session_safe_if session_safe_bnd
      session_safe_emits emits_load_env emits_get_port emits_missing_config emits_try_except
      emits_scp_copy_body emits_return_handler emits_bnd emits_print_err emits_sys_exit)
    (simp_all add: session_neutral_def)

lemma session_safe_upload_images: "session_safe (upload_images w)"
  unfolding upload_images_def Let_def
  by (intro session_safe_connecting session_safe_case_option session_safe_if session_safe_bnd
      session_safe_emits emits_load_env emits_get_port emits_missing_config emits_try_except
      emits_upload_images_body emits_exit_handler emits_bnd emits_print_err emits_sys_exit)
    (simp_all add: session_neutral_def)

lemma session_safe_ssh_main: "session_safe (ssh_main w argv)"
  unfolding ssh_main_def
  by (intro session_safe_if session_safe_then_exit session_safe_ssh_run)
     (intro session_safe_emits emits_bnd emits_print_err emits_sys_exit, simp)

lemma session_safe_scp_main: "session_safe (scp_main w argv)"
  unfolding scp_main_def scp_usage_def
  by (intro session_safe_if session_safe_then_exit session_safe_scp_copy)
     (intro session_safe_emits emits_bnd emits_print_err emits_sys_exit, simp_all)

text \<open>
  C3. In every world, from every state and for every argument, each of \<^verbatim>\<open>ssh_run\<close>,
  \<^verbatim>\<open>scp_copy\<close> and \<^verbatim>\<open>upload_images\<close>, and each script run as a program, either creates
  no client and closes none, or creates one client and closes it exactly once, as the last
  thing it does, on every way out of the \<^verbatim>\<open>try\<close> block: return, \<^verbatim>\<open>sys.exit\<close> from a
  handler, or an exception no clause catches. \<^verbatim>\<open>close\<close> itself, as modelled from the spec,
  never raises: on a client that never connected or is closed already it leaves the session
  closed. (\<^verbatim>\<open>set_missing_host_key_policy\<close>, between the creation and the \<^verbatim>\<open>try\<close>, is
  taken not to raise.)
\<close>

theorem session_closed_exactly_once:
  "closes_once s (snd (ssh_run w command s))
   \<and> closes_once s (snd (scp_copy w local_path remote_path s))
   \<and> closes_once s (snd (upload_images w s))
   \<and> closes_once s (snd (ssh_main w argv s))
   \<and> closes_once s (snd (scp_main w argv s))
   \<and> ssh_close s = (Return (), s\<lparr>session := Closed, trace := trace s @ [SshClose]\<rparr>)
   \<and> fst (ssh_close (snd (ssh_close s))) = Return ()
   \<and> session (snd (ssh_close (snd (ssh_close s)))) = Closed"
  using session_safe_ssh_run [of w command] session_safe_scp_copy [of w local_path remote_path]
    session_safe_upload_images [of w] session_safe_ssh_main [of w argv]
    session_safe_scp_main [of w argv]
  by (simp add: session_safe_def ssh_close_def)

theorem session_closed_exactly_once_witness:
  "closes_once state0 (snd (ssh_run world_auth ''uptime'' state0))
   \<and> trace (snd (ssh_run world_auth ''uptime'' state0)) =
       [NewClient, SetPolicy, Connect ''h'' 22 ''u'' ''p'',
        Print Stderr (''Error: Authentication failed'' @ newline), SshClose]
   \<and> session (snd (ssh_run world_auth ''uptime'' state0)) = Closed"
  using session_closed_exactly_once [of state0 world_auth "''uptime''"]
  by (simp add: ssh_run_def world_auth_def world_ok_def parse_env_ok get_port_ok py_all_def
      truthy_def ssh_run_body_def ssh_connect_def exit_handler_def state0_def)

section \<open>Which files are uploaded, in which order, to which paths\<close>

lemma puts_Nil [simp]: "puts [] = []"
  by (simp add: puts_def)

lemma puts_append [simp]: "puts (a @ b) = puts a @ puts b"
  by (simp add: puts_def)

lemma puts_Cons [simp]: "puts (e # evs) = put_of e @ puts evs"
  by (simp add: puts_def)

lemma puts_none: "list_all (\<lambda>e. put_of e = []) evs \<Longrightarrow> puts evs = []"
  by (induction evs) simp_all

lemma emits_no_puts:
  "emits (\<lambda>e. put_of e = []) m \<Longrightarrow> puts (trace (snd (m s))) = puts (trace s)"
  unfolding emits_def using puts_none by (metis append_Nil2 puts_append)

lemma puts_upto_emits: "emits (\<lambda>e. put_of e = []) m \<Longrightarrow> puts_upto xs m"
  unfolding puts_upto_def
  by (metis emits_no_puts append_Nil2 take_0)

lemma puts_upto_bnd_pre:
  assumes "emits (\<lambda>e. put_of e = []) m" and "\<And>x. puts_upto xs (f x)"
  shows "puts_upto xs (bnd m f)"
  unfolding puts_upto_def
proof
  fix s :: state
  obtain r s1 where m: "m s = (r, s1)" by (cases "m s") auto
  have p1: "puts (trace s1) = puts (trace s)"
    using emits_no_puts [OF assms(1), of s] m by simp
  show "\<exists>k. puts (trace (snd (bnd m f s))) = puts (trace s) @ take k xs"
  proof (cases r)
    case (Return x)
    from assms(2) [of x] obtain k where "puts (trace (snd (f x s1))) = puts (trace s1) @ take k xs"
      unfolding puts_upto_def by blast
    with m Return p1 show ?thesis by (intro exI [of _ k]) (simp add: bnd_def)
  next
    case (Raise e)
    with m p1 show ?thesis by (intro exI [of _ 0]) (simp add: bnd_def)
  qed
qed

lemma puts_upto_bnd_post:
  assumes "puts_upto xs m" and "\<And>x. emits (\<lambda>e. put_of e = []) (f x)"
  shows "puts_upto xs (bnd m f)"
  unfolding puts_upto_def
proof
  fix s :: state
  obtain r s1 where m: "m s = (r, s1)" by (cases "m s") auto
  from assms(1) obtain k where k: "puts (trace s1) = puts (trace s) @ take k xs"
    unfolding puts_upto_def using m by (metis snd_conv)
  show "\<exists>k. puts (trace (snd (bnd m f s))) = puts (trace s) @ take k xs"
  proof (cases r)
    case (Return x)
    have "puts (trace (snd (f x s1))) = puts (trace s1)"
      by (rule emits_no_puts [OF assms(2)])
    with m Return k show ?thesis by (intro exI [of _ k]) (simp add: bnd_def)
  next
    case (Raise e)
    with m k show ?thesis by (intro exI [of _ k]) (simp add: bnd_def)
  qed
qed

lemma puts_upto_try_except:
  assumes "puts_upto xs m" and "\<And>e. emits (\<lambda>e. put_of e = []) (h e)"
  shows "puts_upto xs (try_except m h)"
  unfolding puts_upto_def
proof
  fix s :: state
  obtain r s1 where m: "m s = (r, s1)" by (cases "m s") auto
  from assms(1) obtain k where k: "puts (trace s1) = puts (trace s) @ take k xs"
    unfolding puts_upto_def using m by (metis snd_conv)
  show "\<exists>k. puts (trace (snd (try_except m h s))) = puts (trace s) @ take k xs"
  proof (cases r)
    case (Return x)
    with m k show ?thesis by (intro exI [of _ k]) (simp add: try_except_def)
  next
    case (Raise e)
    have "puts (trace (snd (h e s1))) = puts (trace s1)"
      by (rule emits_no_puts [OF assms(2)])
    with m Raise k show ?thesis by (intro exI [of _ k]) (simp add: try_except_def)
  qed
qed

lemma puts_upto_close:
  assumes "puts_upto xs m"
  shows "puts_upto xs (try_finally m ssh_close)"
  unfolding puts_upto_def
proof
  fix s :: state
  obtain r s1 where m: "m s = (r, s1)" by (cases "m s") auto
  from assms obtain k where k: "puts (trace s1) = puts (trace s) @ take k xs"
    unfolding puts_upto_def using m by (metis snd_conv)
  with m show "\<exists>k. puts (trace (snd (try_finally m ssh_close s))) = puts (trace s) @ take k xs"
    by (intro exI [of _ k]) simp
qed

lemma sftp_put_trace: "trace (snd (sftp_put w lp nd rp s)) = trace s @ [Put lp rp]"
  by (cases nd; cases "put_fault w rp") (simp_all add: sftp_put_def)

lemma puts_upto_upload_loop:
  "puts_upto (map (target ldir rdir) fs) (upload_loop w ldir rdir n i fs)"
proof (induction fs arbitrary: i)
  case Nil
  show ?case by (simp add: puts_upto_def)
next
  case (Cons f fs)
  show ?case
    unfolding puts_upto_def
  proof
    fix s :: state
    let ?put = "sftp_put w (LChild ldir (fst f)) (snd f) (rdir @ ''/'' @ fst f)"
    let ?rest = "\<lambda>_::unit. bnd (if (i + 1) mod 10 = 0 \<or> i + 1 = n
          then print_out (progress_line (i + 1) n) else ret ())
          (\<lambda>_. upload_loop w ldir rdir n (i + 1) fs)"
    obtain r s1 where p: "?put s = (r, s1)" by (cases "?put s") auto
    have t1: "trace s1 = trace s @ [Put (LChild ldir (fst f)) (rdir @ ''/'' @ fst f)]"
      using sftp_put_trace [of w "LChild ldir (fst f)" "snd f" "rdir @ ''/'' @ fst f" s] p by simp
    have loop: "upload_loop w ldir rdir n i (f # fs) s = bnd ?put ?rest s" by simp
    show "\<exists>k. puts (trace (snd (upload_loop w ldir rdir n i (f # fs) s)))
          = puts (trace s) @ take k (map (target ldir rdir) (f # fs))"
    proof (cases r)
      case (Raise e)
      with p t1 show ?thesis
        unfolding loop by (intro exI [of _ 1]) (simp add: bnd_def target_def)
    next
      case (Return u)
      have "puts_upto (map (target ldir rdir) fs) (?rest u)"
        by (intro puts_upto_bnd_pre Cons.IH) (auto intro: emits_print_out)
      then obtain k where "puts (trace (snd (?rest u s1)))
          = puts (trace s1) @ take k (map (target ldir rdir) fs)"
        unfolding puts_upto_def by blast
      with p t1 Return show ?thesis
        unfolding loop by (intro exI [of _ "Suc k"]) (simp add: bnd_def target_def)
    qed
  qed
qed

lemma puts_upto_scp_copy_body:
  "puts_upto (map (target local_path remote_path) (filter (\<lambda>f. is_file (snd f)) cs))
     (scp_copy_body w host port user password local_path (Directory cs) remote_path)"
proof -
  define files where "files = filter (\<lambda>f. is_file (snd f)) cs"
  have body: "scp_copy_body w host port user password local_path (Directory cs) remote_path =
     bnd (ssh_connect w host port user password) (\<lambda>_.
     bnd (open_sftp w) (\<lambda>_.
       if files = [] then
         bnd (print_out ''No files found to upload.'') (\<lambda>_. ret 0)
       else
         bnd (ensure_remote_dir w remote_path) (\<lambda>_.
         bnd (print_out (''Uploading '' @ str_nat (length files) @ '' files...'')) (\<lambda>_.
         bnd (upload_loop w local_path remote_path (length files) 0 files) (\<lambda>_.
         bnd (print_out (''Done! Uploaded '' @ str_nat (length files) @ '' files.'')) (\<lambda>_.
         bnd (sftp_close w) (\<lambda>_. ret 0)))))))"
    by (simp add: scp_copy_body_def Let_def files_def)
  have tail: "puts_upto (map (target local_path remote_path) files)
      (if files = [] then
         bnd (print_out ''No files found to upload.'') (\<lambda>_. ret 0)
       else
         bnd (ensure_remote_dir w remote_path) (\<lambda>_.
         bnd (print_out (''Uploading '' @ str_nat (length files) @ '' files...'')) (\<lambda>_.
         bnd (upload_loop w local_path remote_path (length files) 0 files) (\<lambda>_.
         bnd (print_out (''Done! Uploaded '' @ str_nat (length files) @ '' files.'')) (\<lambda>_.
         bnd (sftp_close w) (\<lambda>_. ret (0::int)))))))"
  proof (cases "files = []")
    case True
    have "emits (\<lambda>e. put_of e = []) (bnd (print_out ''No files found to upload.'') (\<lambda>_. ret (0::int)))"
      by (intro emits_bnd emits_print_out emits_ret) simp
    with True show ?thesis by (simp add: puts_upto_emits)
  next
    case False
    have post: "emits (\<lambda>e. put_of e = [])
        (bnd (print_out (''Done! Uploaded '' @ str_nat (length files) @ '' files.'')) (\<lambda>_.
         bnd (sftp_close w) (\<lambda>_. ret (0::int))))"
      by (intro emits_bnd emits_print_out emits_sftp_close emits_ret) simp_all
    have "puts_upto (map (target local_path remote_path) files)
         (bnd (ensure_remote_dir w remote_path) (\<lambda>_.
         bnd (print_out (''Uploading '' @ str_nat (length files) @ '' files...'')) (\<lambda>_.
         bnd (upload_loop w local_path remote_path (length files) 0 files) (\<lambda>_.
         bnd (print_out (''Done! Uploaded '' @ str_nat (length files) @ '' files.'')) (\<lambda>_.
         bnd (sftp_close w) (\<lambda>_. ret (0::int)))))))"
      apply (rule puts_upto_bnd_pre, rule emits_ensure_remote_dir, simp)
      apply (rule puts_upto_bnd_pre, rule emits_print_out, simp)
      apply (rule puts_upto_bnd_post, rule puts_upto_upload_loop)
      apply (rule post)
      done
    with False show ?thesis by simp
  qed
  show ?thesis
    unfolding body files_def [symmetric]
    apply (rule puts_upto_bnd_pre, rule emits_ssh_connect, simp)
    apply (rule puts_upto_bnd_pre, rule emits_open_sftp, simp)
    apply (rule tail)
    done
qed


lemma puts_loop_events [simp]:
  "puts (loop_events ldir rdir n i fs) = map (target ldir rdir) fs"
  by (induction fs arbitrary: i) (simp_all add: step_events_def target_def)

lemma puts_handled:
  assumes "\<And>e. emits (\<lambda>e. put_of e = []) (h e)"
  shows "puts (trace (snd (try_finally (try_except m h) ssh_close s))) = puts (trace (snd (m s)))"
proof -
  obtain r s1 where m: "m s = (r, s1)" by (cases "m s") auto
  show ?thesis
  proof (cases r)
    case (Return x)
    with m have "try_except m h s = (Return x, s1)" by simp
    with m show ?thesis by simp
  next
    case (Raise e)
    obtain r2 s2 where h: "h e s1 = (r2, s2)" by (cases "h e s1") auto
    have "puts (trace s2) = puts (trace s1)"
      using emits_no_puts [OF assms, of e s1] h by simp
    moreover have "try_except m h s = (r2, s2)" using m Raise h by simp
    ultimately show ?thesis using m by simp
  qed
qed

lemma emits_no_puts_return_handler: "emits (\<lambda>e. put_of e = []) (return_handler e)"
  by (rule emits_return_handler) simp

lemma scp_copy_body_puts:
  assumes "connect_fault w host port user password = None" and "open_sftp_fault w = None"
    and "mkdir_ok w remote_path"
    and "list_all (put_ok w remote_path) (filter (\<lambda>f. is_file (snd f)) cs)"
  shows "puts (trace (snd (scp_copy_body w host port user password local_path (Directory cs)
            remote_path s)))
         = puts (trace s) @ map (target local_path remote_path) (filter (\<lambda>f. is_file (snd f)) cs)"
proof -
  define files where "files = filter (\<lambda>f. is_file (snd f)) cs"
  have close: "emits (\<lambda>e. put_of e = []) (bnd (sftp_close w) (\<lambda>_. ret (0::int)))"
    by (intro emits_bnd emits_sftp_close emits_ret) simp
  have ok: "list_all (put_ok w remote_path) files"
    using assms(4) by (simp add: files_def)
  have "puts (trace (snd (scp_copy_body w host port user password local_path (Directory cs)
            remote_path s)))
         = puts (trace s) @ map (target local_path remote_path) files"
    using assms(1-3) ok
    by (simp add: scp_copy_body_def Let_def files_def [symmetric] ssh_connect_ok open_sftp_ok
        ensure_remote_dir_ok upload_loop_ok emits_no_puts [OF close])
  then show ?thesis by (simp add: files_def)
qed

text \<open>
  C7. With a complete configuration, for a local path that is a directory with children
  \<open>cs\<close>: in every world the uploads \<^verbatim>\<open>scp_copy\<close> makes are an initial segment of the
  list that has, for each direct child that is a regular file, in the order of the
  directory, the pair of the child and the remote path \<^verbatim>\<open>remote_path + '/' + name\<close>;
  subdirectories and what they hold never appear. When the connection, the channel, the
  directory creation and every upload succeed, the uploads are that whole list.
\<close>

theorem directory_upload_order:
  assumes "configured w host port user password"
    and "local_fs w local_path = Some (Directory cs)"
  shows "(\<exists>k. puts (trace (snd (scp_copy w local_path remote_path s))) =
            puts (trace s)
            @ take k (map (target local_path remote_path) (filter (\<lambda>f. is_file (snd f)) cs)))
       \<and> (connect_fault w host port user password = None \<and> open_sftp_fault w = None
           \<and> mkdir_ok w remote_path
           \<and> list_all (put_ok w remote_path) (filter (\<lambda>f. is_file (snd f)) cs)
          \<longrightarrow> puts (trace (snd (scp_copy w local_path remote_path s))) =
            puts (trace s)
            @ map (target local_path remote_path) (filter (\<lambda>f. is_file (snd f)) cs))"
proof (intro conjI impI)
  let ?s1 = "s\<lparr>session := Unconnected,
          trace := trace s @ [Print Stdout (''Connecting to '' @ host @ ''...'' @ newline),
                     NewClient, SetPolicy]\<rparr>"
  let ?body = "scp_copy_body w host port user password local_path (Directory cs) remote_path"
  have run: "scp_copy w local_path remote_path s =
      try_finally (try_except ?body return_handler) ssh_close ?s1"
    by (rule scp_copy_configured [OF assms])
  have p1: "puts (trace ?s1) = puts (trace s)" by simp
  have "puts_upto (map (target local_path remote_path) (filter (\<lambda>f. is_file (snd f)) cs))
      (try_finally (try_except ?body return_handler) ssh_close)"
    by (intro puts_upto_close puts_upto_try_except puts_upto_scp_copy_body
        emits_no_puts_return_handler)
  then obtain k where "puts (trace (snd (try_finally (try_except ?body return_handler) ssh_close ?s1)))
      = puts (trace ?s1)
        @ take k (map (target local_path remote_path) (filter (\<lambda>f. is_file (snd f)) cs))"
    unfolding puts_upto_def by blast
  with run p1 show "\<exists>k. puts (trace (snd (scp_copy w local_path remote_path s))) =
            puts (trace s)
            @ take k (map (target local_path remote_path) (filter (\<lambda>f. is_file (snd f)) cs))"
    by (intro exI [of _ k]) simp
  assume ok: "connect_fault w host port user password = None \<and> open_sftp_fault w = None
           \<and> mkdir_ok w remote_path
           \<and> list_all (put_ok w remote_path) (filter (\<lambda>f. is_file (snd f)) cs)"
  have "puts (trace (snd (scp_copy w local_path remote_path s))) = puts (trace (snd (?body ?s1)))"
    unfolding run by (rule puts_handled) (rule emits_no_puts_return_handler)
  also have "\<dots> = puts (trace ?s1)
      @ map (target local_path remote_path) (filter (\<lambda>f. is_file (snd f)) cs)"
    using ok by (intro scp_copy_body_puts) simp_all
  finally show "puts (trace (snd (scp_copy w local_path remote_path s))) =
            puts (trace s)
            @ map (target local_path remote_path) (filter (\<lambda>f. is_file (snd f)) cs)"
    using p1 by simp
qed

theorem directory_upload_order_witness:
  "puts (trace (snd (scp_copy world_batch ''dist'' ''/srv/dist'' state0))) =
     map (target ''dist'' ''/srv/dist'') batch12
   \<and> local_fs world_batch ''dist''
       = Some (Directory (batch12 @ [(''old'', Directory [(''13.png'', RegularFile ''m'')])]))
   \<and> target ''dist'' ''/srv/dist'' (''01.png'', RegularFile ''a'')
       = (LChild ''dist'' ''01.png'', ''/srv/dist/01.png'')"
  using directory_upload_order [where w = world_batch and host = "''h''" and port = 22
      and user = "''u''" and password = "''p''" and local_path = "''dist''"
      and remote_path = "''/srv/dist''" and s = state0
      and cs = "batch12 @ [(''old'', Directory [(''13.png'', RegularFile ''m'')])]"]
  by (simp add: world_batch_def world_ok_def configured_env_ok mkdir_ok_def
      batch12_regular batch12_put_ok state0_def target_def)

section \<open>A failed upload ends the batch\<close>

lemma return_handler_Exception:
  "is_Exception e \<Longrightarrow>
   return_handler e s = (Return 1, s\<lparr>trace := trace s @ [Print Stderr (error_line e @ newline)]\<rparr>)"
  by (cases e) (simp_all add: return_handler_def error_line_def)

lemma exit_handler_Exception:
  "is_Exception e \<Longrightarrow>
   exit_handler e s =
     (Raise (SystemExit 1), s\<lparr>trace := trace s @ [Print Stderr (error_line e @ newline)]\<rparr>)"
  by (cases e) (simp_all add: exit_handler_def error_line_def)

lemma store_present:
  "g \<in> set fs \<Longrightarrow> store rdir fs m (rdir @ ''/'' @ fst g) \<noteq> None"
proof (induction fs arbitrary: m rule: rev_induct)
  case Nil
  then show ?case by simp
next
  case (snoc f fs)
  then show ?case by (cases "g = f") (auto simp: store_def)
qed

lemma scp_copy_body_put_fails:
  assumes "connect_fault w host port user password = None" and "open_sftp_fault w = None"
    and "mkdir_ok w remote_path"
    and "filter (\<lambda>f. is_file (snd f)) cs = pre @ f # post"
    and "list_all (put_ok w remote_path) pre"
    and "put_fault w (remote_path @ ''/'' @ fst f) = Some e"
  shows "scp_copy_body w host port user password local_path (Directory cs) remote_path s =
     (Raise e, s\<lparr>session := Connected,
        rdirs := (if mkdir_fault w remote_path = None then insert remote_path (rdirs s)
                  else rdirs s),
        rfiles := store remote_path pre (rfiles s),
        trace := trace s @ [Connect host port user password, OpenSftp, Mkdir remote_path,
            Print Stdout (''Uploading '' @ str_nat (length (pre @ f # post)) @ '' files...''
              @ newline)]
          @ batch_events local_path remote_path (length (pre @ f # post)) pre
          @ [Put (LChild local_path (fst f)) (remote_path @ ''/'' @ fst f)]\<rparr>)"
proof -
  have "f \<in> set (filter (\<lambda>f. is_file (snd f)) cs)"
    by (simp add: assms(4))
  then have reg: "is_file (snd f)" by simp
  have put: "sftp_put w (LChild local_path (fst f)) (snd f) (remote_path @ ''/'' @ fst f) s' =
           (Raise e, s'\<lparr>trace := trace s' @ [Put (LChild local_path (fst f)) (remote_path @ ''/'' @ fst f)]\<rparr>)"
    for s'
    by (rule sftp_put_fault [OF reg assms(6)])
  show ?thesis
    using assms(1-3)
    by (simp add: scp_copy_body_def Let_def assms(4) ssh_connect_ok open_sftp_ok
        ensure_remote_dir_ok upload_loop_fail [OF assms(5) put] loop_events_batch
        del: length_append list.size)
qed

text \<open>
  C9. With a complete configuration, a connection, a channel and a directory creation that
  do not stop the run: when the regular files of the directory are \<open>pre @ f # post\<close>,
  the uploads of \<open>pre\<close> succeed and the upload of \<open>f\<close> raises an exception
  \<open>e\<close> that derives from \<^verbatim>\<open>Exception\<close>, then \<^verbatim>\<open>scp_copy\<close> attempts no file of
  \<open>post\<close>, prints the error line that names the cause, closes the session and returns 1,
  so that the script ends with \<^verbatim>\<open>sys.exit(1)\<close>; the remote files are those before the run
  with the files of \<open>pre\<close> written: every one of them is still there.
\<close>

theorem upload_failure_stops_batch:
  assumes "configured w host port user password"
    and "local_fs w local_path = Some (Directory cs)"
    and "filter (\<lambda>f. is_file (snd f)) cs = pre @ f # post"
    and "connect_fault w host port user password = None" and "open_sftp_fault w = None"
    and "mkdir_ok w remote_path"
    and "list_all (put_ok w remote_path) pre"
    and "put_fault w (remote_path @ ''/'' @ fst f) = Some e" and "is_Exception e"
  shows "scp_copy w local_path remote_path s =
     (Return 1, s\<lparr>session := Closed,
        rdirs := (if mkdir_fault w remote_path = None then insert remote_path (rdirs s)
                  else rdirs s),
        rfiles := store remote_path pre (rfiles s),
        trace := trace s @ [Print Stdout (''Connecting to '' @ host @ ''...'' @ newline),
            NewClient, SetPolicy, Connect host port user password, OpenSftp, Mkdir remote_path,
            Print Stdout (''Uploading '' @ str_nat (length (pre @ f # post)) @ '' files...''
              @ newline)]
          @ concat (map (\<lambda>k. step_events local_path remote_path (length (pre @ f # post))
                (Suc k) (pre ! k)) [0..<length pre])
          @ [Put (LChild local_path (fst f)) (remote_path @ ''/'' @ fst f),
             Print Stderr (error_line e @ newline), SshClose]\<rparr>)
     \<and> (3 \<le> length argv \<and> argv ! 1 = local_path \<and> argv ! 2 = remote_path
        \<longrightarrow> fst (scp_main w argv s) = Raise (SystemExit 1))
     \<and> list_all (\<lambda>g. rfiles (snd (scp_copy w local_path remote_path s))
           (remote_path @ ''/'' @ fst g) \<noteq> None) pre"
proof -
  have run: "scp_copy w local_path remote_path s =
     (Return 1, s\<lparr>session := Closed,
        rdirs := (if mkdir_fault w remote_path = None then insert remote_path (rdirs s)
                  else rdirs s),
        rfiles := store remote_path pre (rfiles s),
        trace := trace s @ [Print Stdout (''Connecting to '' @ host @ ''...'' @ newline),
            NewClient, SetPolicy, Connect host port user password, OpenSftp, Mkdir remote_path,
            Print Stdout (''Uploading '' @ str_nat (length (pre @ f # post)) @ '' files...''
              @ newline)]
          @ concat (map (\<lambda>k. step_events local_path remote_path (length (pre @ f # post))
                (Suc k) (pre ! k)) [0..<length pre])
          @ [Put (LChild local_path (fst f)) (remote_path @ ''/'' @ fst f),
             Print Stderr (error_line e @ newline), SshClose]\<rparr>)"
    by (simp add: scp_copy_configured [OF assms(1,2)]
        scp_copy_body_put_fails [OF assms(4,5,6,3,7,8)] return_handler_Exception [OF assms(9)]
        batch_events_def del: length_append list.size)
  have main: "3 \<le> length argv \<and> argv ! 1 = local_path \<and> argv ! 2 = remote_path
        \<longrightarrow> fst (scp_main w argv s) = Raise (SystemExit 1)"
    using run by (auto simp: scp_main_def)
  have kept: "list_all (\<lambda>g. rfiles (snd (scp_copy w local_path remote_path s))
           (remote_path @ ''/'' @ fst g) \<noteq> None) pre"
    unfolding run using store_present [of _ pre remote_path "rfiles s"]
    by (auto simp: list_all_iff simp del: length_append list.size)
  from run main kept show ?thesis by blast
qed


lemma str_nat_Suc_12:
  "str_nat (Suc (Suc (Suc (Suc (Suc (Suc (Suc (Suc (Suc (Suc (Suc (Suc 0)))))))))))) = ''12''"
proof -
  have "Suc (Suc (Suc (Suc (Suc (Suc (Suc (Suc (Suc (Suc (Suc (Suc 0))))))))))) = (12::nat)"
    by simp
  then show ?thesis by (simp only: str_nat_examples)
qed

theorem upload_failure_stops_batch_witness:
  "fst (scp_copy world_put_fails ''dist'' ''/srv/dist'' state0) = Return 1
   \<and> trace (snd (scp_copy world_put_fails ''dist'' ''/srv/dist'' state0)) =
       [Print Stdout (''Connecting to h...'' @ newline), NewClient, SetPolicy,
        Connect ''h'' 22 ''u'' ''p'', OpenSftp, Mkdir ''/srv/dist'',
        Print Stdout (''Uploading 12 files...'' @ newline),
        Put (LChild ''dist'' ''01.png'') ''/srv/dist/01.png'',
        Put (LChild ''dist'' ''02.png'') ''/srv/dist/02.png'',
        Put (LChild ''dist'' ''03.png'') ''/srv/dist/03.png'',
        Print Stderr (''Error: SSH connection failed - Server connection dropped'' @ newline),
        SshClose]
   \<and> rfiles (snd (scp_copy world_put_fails ''dist'' ''/srv/dist'' state0)) ''/srv/dist/01.png''
       = Some ''a''
   \<and> rfiles (snd (scp_copy world_put_fails ''dist'' ''/srv/dist'' state0)) ''/srv/dist/02.png''
       = Some ''b''
   \<and> rfiles (snd (scp_copy world_put_fails ''dist'' ''/srv/dist'' state0)) ''/srv/dist/04.jpg''
       = None
   \<and> fst (scp_main world_put_fails [''scp_run.py'', ''dist'', ''/srv/dist''] state0)
       = Raise (SystemExit 1)"
  using upload_failure_stops_batch [where w = world_put_fails and host = "''h''" and port = 22
      and user = "''u''" and password = "''p''" and local_path = "''dist''"
      and remote_path = "''/srv/dist''" and s = state0
      and cs = "batch12 @ [(''old'', Directory [(''13.png'', RegularFile ''m'')])]"
      and pre = "[(''01.png'', RegularFile ''a''), (''02.png'', RegularFile ''b'')]"
      and f = "(''03.png'', RegularFile ''c'')"
      and post = "[(''04.jpg'', RegularFile ''d''),
         (''05.png'', RegularFile ''e''), (''06.png'', RegularFile ''f''),
         (''07.png'', RegularFile ''g''), (''08.png'', RegularFile ''h''),
         (''09.png'', RegularFile ''i''), (''10.png'', RegularFile ''j''),
         (''11.png'', RegularFile ''k''), (''12.png'', RegularFile ''l'')]"
      and e = "SSHException ''Server connection dropped''"
      and argv = "[''scp_run.py'', ''dist'', ''/srv/dist'']"]
  by (simp add: world_put_fails_def world_batch_def world_ok_def configured_env_ok mkdir_ok_def
      batch12_def put_ok_def state0_def step_events_def error_line_def str_nat_Suc_12)

section \<open>A remote directory that exists already\<close>

lemma sftp_mkdir_exists:
  "mkdir_fault w p = None \<Longrightarrow> p \<in> rdirs s \<Longrightarrow>
   sftp_mkdir w p s = (Raise (IOError ''Failure''), s\<lparr>trace := trace s @ [Mkdir p]\<rparr>)"
  by (simp add: sftp_mkdir_def)

lemma scp_copy_batch:
  assumes "configured w host port user password"
    and "connect_fault w host port user password = None" and "open_sftp_fault w = None"
    and "sftp_close_fault w = None" and "mkdir_ok w remote_path"
    and "local_fs w local_path = Some (Directory cs)"
    and "files = filter (\<lambda>f. is_file (snd f)) cs" and "files \<noteq> []"
    and "list_all (put_ok w remote_path) files"
  shows "scp_copy w local_path remote_path s =
     (Return 0, s\<lparr>session := Closed,
        rdirs := (if mkdir_fault w remote_path = None then insert remote_path (rdirs s)
                  else rdirs s),
        rfiles := store remote_path files (rfiles s),
        trace := trace s @ [Print Stdout (''Connecting to '' @ host @ ''...'' @ newline),
            NewClient, SetPolicy, Connect host port user password, OpenSftp, Mkdir remote_path,
            Print Stdout (''Uploading '' @ str_nat (length files) @ '' files...'' @ newline)]
          @ batch_events local_path remote_path (length files) files
          @ [Print Stdout (''Done! Uploaded '' @ str_nat (length files) @ '' files.'' @ newline),
             SftpClose, SshClose]\<rparr>)"
  by (simp add: scp_copy_configured [OF assms(1,6)]
      scp_copy_body_batch [OF assms(2,3,4,5,7,8,9)])

lemma upload_images_batch:
  assumes "configured w host port user password"
    and "connect_fault w host port user password = None" and "open_sftp_fault w = None"
    and "sftp_close_fault w = None" and "mkdir_ok w remote_dir"
    and "local_fs w (images_dir w) = Some d"
    and "images = glob_suffix d ''.png'' @ glob_suffix d ''.jpg'' @ glob_suffix d ''.webp''"
    and "images \<noteq> []"
    and "list_all (put_ok w remote_dir) images"
  shows "upload_images w s =
     (Return (), s\<lparr>session := Closed,
        rdirs := (if mkdir_fault w remote_dir = None then insert remote_dir (rdirs s)
                  else rdirs s),
        rfiles := store remote_dir images (rfiles s),
        trace := trace s @ [Print Stdout (''Connecting to '' @ host @ ''...'' @ newline),
            NewClient, SetPolicy, Connect host port user password, OpenSftp, Mkdir remote_dir,
            Print Stdout (''Uploading '' @ str_nat (length images) @ '' images...'' @ newline)]
          @ batch_events (images_dir w) remote_dir (length images) images
          @ [Print Stdout (''Done! Uploaded '' @ str_nat (length images) @ '' images.'' @ newline),
             SftpClose, SshClose]\<rparr>)"
  by (simp add: upload_images_configured [OF assms(1,6)]
      upload_images_body_batch [OF assms(2,3,4,5,7,8,9)])

text \<open>
  C8. With a complete configuration and a connection and a channel that work: when the
  remote directory exists already, \<^verbatim>\<open>mkdir\<close> raises \<^verbatim>\<open>IOError\<close>, the run prints
  nothing about it and goes on: a batch whose uploads succeed ends in success, with the same
  trace as if the directory had been created; and a second run from the state the first one
  leaves succeeds as well. This holds for \<^verbatim>\<open>scp_copy\<close> on a directory and for
  \<^verbatim>\<open>upload_images\<close>.
\<close>

theorem existing_remote_directory:
  assumes "configured w host port user password"
    and "connect_fault w host port user password = None" and "open_sftp_fault w = None"
    and "sftp_close_fault w = None"
  shows "(remote_path \<in> rdirs s \<and> mkdir_fault w remote_path = None
          \<and> local_fs w local_path = Some (Directory cs)
          \<and> files = filter (\<lambda>f. is_file (snd f)) cs \<and> files \<noteq> []
          \<and> list_all (put_ok w remote_path) files
          \<longrightarrow> sftp_mkdir w remote_path s =
                (Raise (IOError ''Failure''), s\<lparr>trace := trace s @ [Mkdir remote_path]\<rparr>)
            \<and> scp_copy w local_path remote_path s =
                (Return 0, s\<lparr>session := Closed,
                   rfiles := store remote_path files (rfiles s),
                   trace := trace s @ [Print Stdout (''Connecting to '' @ host @ ''...'' @ newline),
                       NewClient, SetPolicy, Connect host port user password, OpenSftp,
                       Mkdir remote_path,
                       Print Stdout (''Uploading '' @ str_nat (length files) @ '' files...''
                         @ newline)]
                     @ batch_events local_path remote_path (length files) files
                     @ [Print Stdout (''Done! Uploaded '' @ str_nat (length files) @ '' files.''
                          @ newline),
                        SftpClose, SshClose]\<rparr>)
            \<and> fst (scp_copy w local_path remote_path (snd (scp_copy w local_path remote_path s)))
                = Return 0)
       \<and> (remote_dir \<in> rdirs s \<and> mkdir_fault w remote_dir = None
          \<and> local_fs w (images_dir w) = Some d
          \<and> images = glob_suffix d ''.png'' @ glob_suffix d ''.jpg'' @ glob_suffix d ''.webp''
          \<and> images \<noteq> [] \<and> list_all (put_ok w remote_dir) images
          \<longrightarrow> sftp_mkdir w remote_dir s =
                (Raise (IOError ''Failure''), s\<lparr>trace := trace s @ [Mkdir remote_dir]\<rparr>)
            \<and> upload_images w s =
                (Return (), s\<lparr>session := Closed,
                   rfiles := store remote_dir images (rfiles s),
                   trace := trace s @ [Print Stdout (''Connecting to '' @ host @ ''...'' @ newline),
                       NewClient, SetPolicy, Connect host port user password, OpenSftp,
                       Mkdir remote_dir,
                       Print Stdout (''Uploading '' @ str_nat (length images) @ '' images...''
                         @ newline)]
                     @ batch_events (images_dir w) remote_dir (length images) images
                     @ [Print Stdout (''Done! Uploaded '' @ str_nat (length images) @ '' images.''
                          @ newline),
                        SftpClose, SshClose]\<rparr>)
            \<and> fst (upload_images w (snd (upload_images w s))) = Return ())"
proof (intro conjI impI; elim conjE)
  assume ex: "remote_path \<in> rdirs s" and mk: "mkdir_fault w remote_path = None"
    and fs: "local_fs w local_path = Some (Directory cs)"
    and f: "files = filter (\<lambda>f. is_file (snd f)) cs" and ne: "files \<noteq> []"
    and ok: "list_all (put_ok w remote_path) files"
  have mo: "mkdir_ok w remote_path" using mk by (simp add: mkdir_ok_def)
  note run = scp_copy_batch [OF assms mo fs f ne ok]
  show "sftp_mkdir w remote_path s =
        (Raise (IOError ''Failure''), s\<lparr>trace := trace s @ [Mkdir remote_path]\<rparr>)"
    by (rule sftp_mkdir_exists [OF mk ex])
  show first: "scp_copy w local_path remote_path s =
                (Return 0, s\<lparr>session := Closed,
                   rfiles := store remote_path files (rfiles s),
                   trace := trace s @ [Print Stdout (''Connecting to '' @ host @ ''...'' @ newline),
                       NewClient, SetPolicy, Connect host port user password, OpenSftp,
                       Mkdir remote_path,
                       Print Stdout (''Uploading '' @ str_nat (length files) @ '' files...''
                         @ newline)]
                     @ batch_events local_path remote_path (length files) files
                     @ [Print Stdout (''Done! Uploaded '' @ str_nat (length files) @ '' files.''
                          @ newline),
                        SftpClose, SshClose]\<rparr>)"
    using ex mk by (simp add: run insert_absorb)
  show "fst (scp_copy w local_path remote_path (snd (scp_copy w local_path remote_path s)))
                = Return 0"
    by (simp add: run)
next
  assume ex: "remote_dir \<in> rdirs s" and mk: "mkdir_fault w remote_dir = None"
    and fs: "local_fs w (images_dir w) = Some d"
    and f: "images = glob_suffix d ''.png'' @ glob_suffix d ''.jpg'' @ glob_suffix d ''.webp''"
    and ne: "images \<noteq> []"
    and ok: "list_all (put_ok w remote_dir) images"
  have mo: "mkdir_ok w remote_dir" using mk by (simp add: mkdir_ok_def)
  note run = upload_images_batch [OF assms mo fs f ne ok]
  show "sftp_mkdir w remote_dir s =
        (Raise (IOError ''Failure''), s\<lparr>trace := trace s @ [Mkdir remote_dir]\<rparr>)"
    by (rule sftp_mkdir_exists [OF mk ex])
  show "upload_images w s =
                (Return (), s\<lparr>session := Closed,
                   rfiles := store remote_dir images (rfiles s),
                   trace := trace s @ [Print Stdout (''Connecting to '' @ host @ ''...'' @ newline),
                       NewClient, SetPolicy, Connect host port user password, OpenSftp,
                       Mkdir remote_dir,
                       Print Stdout (''Uploading '' @ str_nat (length images) @ '' images...''
                         @ newline)]
                     @ batch_events (images_dir w) remote_dir (length images) images
                     @ [Print Stdout (''Done! Uploaded '' @ str_nat (length images) @ '' images.''
                          @ newline),
                        SftpClose, SshClose]\<rparr>)"
    using ex mk by (simp add: run insert_absorb)
  show "fst (upload_images w (snd (upload_images w s))) = Return ()"
    by (simp add: run)
qed

lemma images12_glob:
  "glob_suffix (Directory (batch12 @ [(''old'', Directory [(''13.png'', RegularFile ''m'')])])) ''.png''
   @ glob_suffix (Directory (batch12 @ [(''old'', Directory [(''13.png'', RegularFile ''m'')])])) ''.jpg''
   @ glob_suffix (Directory (batch12 @ [(''old'', Directory [(''13.png'', RegularFile ''m'')])])) ''.webp''
   = images12"
  by (simp add: glob_suffix_def endswith_def batch12_def images12_def)

lemma images12_ok: "images12 \<noteq> []" "put_fault w = (\<lambda>p. None) \<Longrightarrow> list_all (put_ok w rdir) images12"
  by (simp_all add: images12_def put_ok_def)

theorem existing_remote_directory_witness:
  "fst (sftp_mkdir world_batch ''/srv/dist'' state_existing) = Raise (IOError ''Failure'')
   \<and> fst (scp_copy world_batch ''dist'' ''/srv/dist'' state_existing) = Return 0
   \<and> fst (scp_copy world_batch ''dist'' ''/srv/dist''
            (snd (scp_copy world_batch ''dist'' ''/srv/dist'' state_existing))) = Return 0
   \<and> fst (sftp_mkdir world_batch remote_dir state_existing) = Raise (IOError ''Failure'')
   \<and> fst (upload_images world_batch state_existing) = Return ()
   \<and> fst (upload_images world_batch (snd (upload_images world_batch state_existing))) = Return ()"
proof -
  let ?cs = "batch12 @ [(''old'', Directory [(''13.png'', RegularFile ''m'')])]"
  have c: "configured world_batch ''h'' 22 ''u'' ''p''"
    by (simp add: configured_env_ok world_batch_def world_ok_def)
  have ok: "connect_fault world_batch ''h'' 22 ''u'' ''p'' = None"
    "open_sftp_fault world_batch = None" "sftp_close_fault world_batch = None"
    by (simp_all add: world_batch_def world_ok_def)
  note th = existing_remote_directory [OF c ok, where s = state_existing
      and local_path = "''dist''" and remote_path = "''/srv/dist''" and cs = ?cs
      and files = batch12 and d = "Directory ?cs" and images = images12]
  have p1: "''/srv/dist'' \<in> rdirs state_existing \<and> mkdir_fault world_batch ''/srv/dist'' = None
          \<and> local_fs world_batch ''dist'' = Some (Directory ?cs)
          \<and> batch12 = filter (\<lambda>f. is_file (snd f)) ?cs \<and> batch12 \<noteq> []
          \<and> list_all (put_ok world_batch ''/srv/dist'') batch12"
    by (simp add: world_batch_def world_ok_def state_existing_def state0_def
        batch12_regular batch12_put_ok)
  have p2: "remote_dir \<in> rdirs state_existing \<and> mkdir_fault world_batch remote_dir = None
          \<and> local_fs world_batch (images_dir world_batch) = Some (Directory ?cs)
          \<and> images12 = glob_suffix (Directory ?cs) ''.png'' @ glob_suffix (Directory ?cs) ''.jpg''
              @ glob_suffix (Directory ?cs) ''.webp''
          \<and> images12 \<noteq> [] \<and> list_all (put_ok world_batch remote_dir) images12"
    by (simp add: world_batch_def world_ok_def state_existing_def state0_def
        images12_glob images12_ok)
  note scp = th [THEN conjunct1, THEN mp, OF p1]
  note img = th [THEN conjunct2, THEN mp, OF p2]
  have a1: "fst (sftp_mkdir world_batch ''/srv/dist'' state_existing) = Raise (IOError ''Failure'')"
    by (simp add: scp [THEN conjunct1])
  have a2: "fst (scp_copy world_batch ''dist'' ''/srv/dist'' state_existing) = Return 0"
    by (simp add: scp [THEN conjunct2, THEN conjunct1])
  note a3 = scp [THEN conjunct2, THEN conjunct2]
  have b1: "fst (sftp_mkdir world_batch remote_dir state_existing) = Raise (IOError ''Failure'')"
    by (simp add: img [THEN conjunct1])
  have b2: "fst (upload_images world_batch state_existing) = Return ()"
    by (simp add: img [THEN conjunct2, THEN conjunct1])
  note b3 = img [THEN conjunct2, THEN conjunct2]
  show ?thesis
    by (intro conjI a1 a2 a3 b1 b2 b3)
qed

section \<open>A directory without regular files\<close>

text \<open>
  On a directory none of whose direct children is a regular file, \<^verbatim>\<open>scp_copy\<close> returns 0
  once the connection and the channel are open; it attempts neither a directory creation nor
  an upload. \<^verbatim>\<open>upload_images\<close> attempts the directory creation first and returns without
  an upload when no direct child has one of the three extensions.
\<close>

lemma scp_copy_no_regular_files:
  assumes "configured w host port user password"
    and "connect_fault w host port user password = None" and "open_sftp_fault w = None"
    and "local_fs w local_path = Some (Directory cs)"
    and "filter (\<lambda>f. is_file (snd f)) cs = []"
  shows "scp_copy w local_path remote_path s =
     (Return 0, s\<lparr>session := Closed,
        trace := trace s @ [Print Stdout (''Connecting to '' @ host @ ''...'' @ newline),
            NewClient, SetPolicy, Connect host port user password, OpenSftp,
            Print Stdout (''No files found to upload.'' @ newline), SshClose]\<rparr>)"
  using assms(2,3,5)
  by (simp add: scp_copy_configured [OF assms(1,4)] scp_copy_body_def ssh_connect_ok
      open_sftp_ok Let_def)

lemma upload_images_no_match:
  assumes "configured w host port user password"
    and "connect_fault w host port user password = None" and "open_sftp_fault w = None"
    and "mkdir_ok w remote_dir"
    and "local_fs w (images_dir w) = Some d"
    and "glob_suffix d ''.png'' @ glob_suffix d ''.jpg'' @ glob_suffix d ''.webp'' = []"
  shows "upload_images w s =
     (Return (), s\<lparr>session := Closed,
        rdirs := (if mkdir_fault w remote_dir = None then insert remote_dir (rdirs s)
                  else rdirs s),
        trace := trace s @ [Print Stdout (''Connecting to '' @ host @ ''...'' @ newline),
            NewClient, SetPolicy, Connect host port user password, OpenSftp, Mkdir remote_dir,
            Print Stdout (''No image files found to upload.'' @ newline), SshClose]\<rparr>)"
  using assms(2,3,4) assms(6)
  by (simp add: upload_images_configured [OF assms(1,5)] upload_images_body_def ssh_connect_ok
      open_sftp_ok ensure_remote_dir_ok Let_def)

lemma no_regular_files_example:
  "scp_copy world_no_files ''dist'' ''/srv/dist'' state0 =
     (Return 0, state0\<lparr>session := Closed,
        trace := [Print Stdout (''Connecting to h...'' @ newline), NewClient, SetPolicy,
          Connect ''h'' 22 ''u'' ''p'', OpenSftp,
          Print Stdout (''No files found to upload.'' @ newline), SshClose]\<rparr>)"
  "upload_images world_no_files state0 =
     (Return (), state0\<lparr>session := Closed, rdirs := {remote_dir},
        trace := [Print Stdout (''Connecting to h...'' @ newline), NewClient, SetPolicy,
          Connect ''h'' 22 ''u'' ''p'', OpenSftp, Mkdir remote_dir,
          Print Stdout (''No image files found to upload.'' @ newline), SshClose]\<rparr>)"
proof -
  let ?d = "Directory [(''old'', Directory [(''13.png'', RegularFile ''m'')])]"
  have c: "configured world_no_files ''h'' 22 ''u'' ''p''"
    by (simp add: configured_env_ok world_no_files_def world_ok_def)
  have ok: "connect_fault world_no_files ''h'' 22 ''u'' ''p'' = None"
    "open_sftp_fault world_no_files = None"
    by (simp_all add: world_no_files_def world_ok_def)
  have mk: "mkdir_ok world_no_files remote_dir" "mkdir_fault world_no_files remote_dir = None"
    by (simp_all add: mkdir_ok_def world_no_files_def world_ok_def)
  have fs: "local_fs world_no_files ''dist'' = Some ?d"
    "local_fs world_no_files (images_dir world_no_files) = Some ?d"
    by (simp_all add: world_no_files_def world_ok_def)
  have none: "filter (\<lambda>f. is_file (snd f)) [(''old'', Directory [(''13.png'', RegularFile ''m'')])] = []"
    "glob_suffix ?d ''.png'' @ glob_suffix ?d ''.jpg'' @ glob_suffix ?d ''.webp'' = []"
    by (simp_all add: glob_suffix_def endswith_def)
  show "scp_copy world_no_files ''dist'' ''/srv/dist'' state0 =
     (Return 0, state0\<lparr>session := Closed,
        trace := [Print Stdout (''Connecting to h...'' @ newline), NewClient, SetPolicy,
          Connect ''h'' 22 ''u'' ''p'', OpenSftp,
          Print Stdout (''No files found to upload.'' @ newline), SshClose]\<rparr>)"
    by (simp add: scp_copy_no_regular_files [OF c ok fs(1) none(1)] state0_def)
  show "upload_images world_no_files state0 =
     (Return (), state0\<lparr>session := Closed, rdirs := {remote_dir},
        trace := [Print Stdout (''Connecting to h...'' @ newline), NewClient, SetPolicy,
          Connect ''h'' 22 ''u'' ''p'', OpenSftp, Mkdir remote_dir,
          Print Stdout (''No image files found to upload.'' @ newline), SshClose]\<rparr>)"
    by (simp add: upload_images_no_match [OF c ok mk(1) fs(2) none(2)] mk(2) state0_def)
qed

lemma str_nat_1: "str_nat (Suc 0) = ''1''"
  by (simp add: str_nat.simps digit_char_def) code_simp

text \<open>
  C1. \<^verbatim>\<open>upload_images\<close> takes every child the three patterns match, without asking
  whether it is a regular file. On a product directory whose only child is a subdirectory
  named \<^verbatim>\<open>thumbs.png\<close>, which holds no regular file directly, it counts one image, calls
  \<^verbatim>\<open>put\<close> on the subdirectory and ends with the error line and \<^verbatim>\<open>sys.exit(1)\<close>.
\<close>

theorem image_named_directory_is_uploaded:
  "local_fs world_image_dir (images_dir world_image_dir)
     = Some (Directory [(''thumbs.png'', Directory [(''01.png'', RegularFile ''a'')])])
   \<and> filter (\<lambda>f. is_file (snd f)) [(''thumbs.png'', Directory [(''01.png'', RegularFile ''a'')])]
     = []
   \<and> upload_images world_image_dir state0 =
     (Raise (SystemExit 1), state0\<lparr>session := Closed, rdirs := {remote_dir},
        trace := [Print Stdout (''Connecting to h...'' @ newline), NewClient, SetPolicy,
          Connect ''h'' 22 ''u'' ''p'', OpenSftp, Mkdir remote_dir,
          Print Stdout (''Uploading 1 images...'' @ newline),
          Put (LChild ''/opt/server/uploads/products'' ''thumbs.png'')
            (remote_dir @ ''/thumbs.png''),
          Print Stderr (''Error: [Errno 21] Is a directory'' @ newline), SshClose]\<rparr>)"
proof -
  have c: "configured world_image_dir ''h'' 22 ''u'' ''p''"
    by (simp add: configured_env_ok world_image_dir_def world_ok_def)
  have fs: "local_fs world_image_dir (images_dir world_image_dir)
     = Some (Directory [(''thumbs.png'', Directory [(''01.png'', RegularFile ''a'')])])"
    by (simp add: world_image_dir_def world_ok_def)
  have mk: "mkdir_ok world_image_dir remote_dir"
    by (simp add: mkdir_ok_def world_image_dir_def world_ok_def)
  have body: "upload_images_body world_image_dir ''h'' 22 ''u'' ''p''
      (Directory [(''thumbs.png'', Directory [(''01.png'', RegularFile ''a'')])]) s =
    (Raise (IOError ''[Errno 21] Is a directory''),
     s\<lparr>session := Connected, rdirs := insert remote_dir (rdirs s),
       trace := trace s @ [Connect ''h'' 22 ''u'' ''p'', OpenSftp, Mkdir remote_dir,
          Print Stdout (''Uploading 1 images...'' @ newline),
          Put (LChild ''/opt/server/uploads/products'' ''thumbs.png'')
            (remote_dir @ ''/thumbs.png'')]\<rparr>)" for s
    by (simp add: upload_images_body_def Let_def ssh_connect_ok open_sftp_ok
        ensure_remote_dir_ok mkdir_ok_def glob_suffix_def endswith_def sftp_put_directory
        str_nat_1 world_image_dir_def world_ok_def)
  show ?thesis
    by (simp add: fs upload_images_configured [OF c fs] body exit_handler_def state0_def)
qed

end
